theory Spec2Isabelle
  imports Complex_Main
begin

section \<open>Python values and the pandas operations the program calls\<close>

text \<open>
  The program (\<^verbatim>\<open>app.py\<close>) loads a spreadsheet into a pandas data frame, derives a
  label column, and computes a rounded mean of the \<^verbatim>\<open>age\<close> column of a subset.
  A cell of a data frame is a number, a string (spreadsheet cells arrive as strings when
  they are not numeric), or the missing value NaN. Numbers are exact rationals: the
  rounding error of binary floating point in a sum or a quotient is not modelled; the
  concrete values evaluated below (213, 53.25, 532.5) are exact in binary64.
\<close>

datatype cell = Num rat | Str string | NaN

datatype error =
    KeyError string | TypeError | AttributeError string | StateError nat
  | NameError string | UnboundLocalError string | Unsupported

text \<open>
  A data frame as \<^verbatim>\<open>pd.DataFrame(records)\<close> builds it: the column labels and one
  dictionary per row. A key that a row lacks reads as NaN.
\<close>

record dataframe =
  columns :: "string list"
  rows :: "(string \<rightharpoonup> cell) list"

definition cell_at :: "(string \<rightharpoonup> cell) \<Rightarrow> string \<Rightarrow> cell" where
  "cell_at r c = (case r c of None \<Rightarrow> NaN | Some v \<Rightarrow> v)"

text \<open>\<^verbatim>\<open>df[c]\<close>: the column as a series, KeyError when there is no such column.\<close>

definition getitem :: "dataframe \<Rightarrow> string \<Rightarrow> error + cell list" where
  "getitem df c =
     (if c \<in> set (columns df) then Inr (map (\<lambda>r. cell_at r c) (rows df))
      else Inl (KeyError c))"

text \<open>\<^verbatim>\<open>series == s\<close> for a string \<open>s\<close>: elementwise, NaN and numbers compare unequal.\<close>

definition series_eq :: "cell list \<Rightarrow> string \<Rightarrow> bool list" where
  "series_eq s g = map (\<lambda>c. c = Str g) s"

text \<open>\<^verbatim>\<open>df[mask]\<close>: the rows whose mask entry is true, the columns kept.\<close>

definition getitem_mask :: "dataframe \<Rightarrow> bool list \<Rightarrow> dataframe" where
  "getitem_mask df keep = df\<lparr>rows := map fst (filter snd (zip (rows df) keep))\<rparr>"

text \<open>\<^verbatim>\<open>df.empty\<close>: true when either axis has length 0.\<close>

definition df_empty :: "dataframe \<Rightarrow> bool" where
  "df_empty df = (rows df = [] \<or> columns df = [])"

fun is_str :: "cell \<Rightarrow> bool" where
  "is_str (Str s) = True"
| "is_str c = False"

fun num_of :: "cell \<Rightarrow> rat" where
  "num_of (Num q) = q"
| "num_of c = 0"

text \<open>
  \<^verbatim>\<open>series.mean()\<close> (skipna): NaN cells are dropped; a string among the others makes the
  sum fail with TypeError; no cell left gives NaN; otherwise sum over count.
\<close>

definition mean :: "cell list \<Rightarrow> error + cell" where
  "mean s =
     (let present = filter (\<lambda>c. c \<noteq> NaN) s in
      if list_ex is_str present then Inl TypeError
      else if present = [] then Inr NaN
      else Inr (Num (sum_list (map num_of present) / of_nat (length present))))"

text \<open>Rounding to the nearest integer, a tie going to the even neighbour.\<close>

definition round_half_even :: "rat \<Rightarrow> int" where
  "round_half_even x =
     (let f = \<lfloor>x\<rfloor>; d = x - of_int f in
      if d < 1 / 2 then f
      else if 1 / 2 < d then f + 1
      else if even f then f else f + 1)"

text \<open>\<^verbatim>\<open>round(x, ndigits)\<close> on a float: NaN stays NaN, a string is a TypeError.\<close>

definition py_round :: "cell \<Rightarrow> nat \<Rightarrow> error + cell" where
  "py_round x ndigits =
     (case x of
        Num q \<Rightarrow> Inr (Num (of_int (round_half_even (q * 10 ^ ndigits)) / 10 ^ ndigits))
      | NaN \<Rightarrow> Inr NaN
      | Str s \<Rightarrow> Inl TypeError)"

section \<open>The task computation\<close>

text \<open>
  \<^verbatim>\<open>
  def compute_avg_age(filtered_df, gender_filter):
      data = (filtered_df if gender_filter == "All"
              else filtered_df[filtered_df["sex_label"] == gender_filter])
      return round(data["age"].mean(), 1) if not data.empty else 0
  \<close>
\<close>

definition compute_avg_age :: "dataframe \<Rightarrow> string \<Rightarrow> error + cell" where
  "compute_avg_age filtered_df gender_filter =
     (case (if gender_filter = ''All'' then Inr filtered_df
            else (case getitem filtered_df ''sex_label'' of
                    Inl e \<Rightarrow> Inl e
                  | Inr s \<Rightarrow> Inr (getitem_mask filtered_df (series_eq s gender_filter)))) of
        Inl e \<Rightarrow> Inl e
      | Inr data \<Rightarrow>
          if \<not> df_empty data then
            (case getitem data ''age'' of
               Inl e \<Rightarrow> Inl e
             | Inr ages \<Rightarrow> (case mean ages of Inl e \<Rightarrow> Inl e | Inr m \<Rightarrow> py_round m 1))
          else Inr (Num 0))"

text \<open>The ten-row data set of the end-to-end example: six Male rows, four Female rows.\<close>

definition mk_row :: "string \<Rightarrow> rat \<Rightarrow> (string \<rightharpoonup> cell)" where
  "mk_row label a = [''sex_label'' \<mapsto> Str label, ''age'' \<mapsto> Num a]"

definition dataset10 :: dataframe where
  "dataset10 = \<lparr>columns = [''sex_label'', ''age''],
     rows = [mk_row ''Male'' 50, mk_row ''Male'' 55, mk_row ''Male'' 60, mk_row ''Female'' 45,
             mk_row ''Female'' 70, mk_row ''Male'' 65, mk_row ''Female'' 40, mk_row ''Male'' 48,
             mk_row ''Male'' 52, mk_row ''Female'' 58]\<rparr>"

section \<open>Loading: the sex code and its label\<close>

text \<open>
  \<^verbatim>\<open>
  df_raw["sex"] = pd.to_numeric(df_raw["sex"], errors="coerce").fillna(0).astype(int)
  df_raw["sex_label"] = df_raw["sex"].map({0: "Female", 1: "Male"})
  \<close>
  \<^verbatim>\<open>pd.to_numeric\<close> reads a string cell with a number parser of pandas, which is not
  part of the program: it is the parameter \<open>parse\<close>, giving \<open>None\<close> for a string that
  is no number. With \<^verbatim>\<open>errors="coerce"\<close> such a cell becomes NaN.
\<close>

definition to_numeric :: "(string \<Rightarrow> rat option) \<Rightarrow> cell \<Rightarrow> rat option" where
  "to_numeric parse c = (case c of Num q \<Rightarrow> Some q | Str s \<Rightarrow> parse s | NaN \<Rightarrow> None)"

definition fillna :: "rat \<Rightarrow> rat option \<Rightarrow> rat" where
  "fillna v x = (case x of None \<Rightarrow> v | Some q \<Rightarrow> q)"

text \<open>
  \<^verbatim>\<open>astype(int)\<close> converts to 64-bit integers. A value with a fraction is cut off
  towards zero. Where the result fits the signed 64-bit range it is that integer. Where
  it does not, what the column holds afterwards depends on the type of the column and on
  the platform (an unsigned 64-bit column wraps around, so that \<open>2 ^ 63\<close> becomes
  \<open>- (2 ^ 63)\<close>; for a float column the C conversion decides): it is the parameter
  \<open>ovf\<close>, of which \<open>wrap_int64\<close> is the wrap-around. A conversion that fails
  altogether is not modelled.
\<close>

definition trunc :: "rat \<Rightarrow> int" where
  "trunc q = (if 0 \<le> q then \<lfloor>q\<rfloor> else \<lceil>q\<rceil>)"

definition wrap_int64 :: "int \<Rightarrow> int" where
  "wrap_int64 i = (i + 2 ^ 63) mod 2 ^ 64 - 2 ^ 63"

definition astype_int :: "(int \<Rightarrow> int) \<Rightarrow> rat \<Rightarrow> int" where
  "astype_int ovf q =
     (let i = trunc q in if - (2 ^ 63) \<le> i \<and> i < 2 ^ 63 then i else ovf i)"

definition sex_code :: "(int \<Rightarrow> int) \<Rightarrow> (string \<Rightarrow> rat option) \<Rightarrow> cell \<Rightarrow> int" where
  "sex_code ovf parse c = astype_int ovf (fillna 0 (to_numeric parse c))"

definition sex_labels :: "int \<rightharpoonup> string" where
  "sex_labels = [0 \<mapsto> ''Female'', 1 \<mapsto> ''Male'']"

text \<open>\<^verbatim>\<open>series.map(dict)\<close>: a value that is no key of the dictionary maps to NaN.\<close>

definition series_map :: "(int \<rightharpoonup> string) \<Rightarrow> int \<Rightarrow> cell" where
  "series_map d v = (case d v of None \<Rightarrow> NaN | Some s \<Rightarrow> Str s)"

definition load_row ::
  "(int \<Rightarrow> int) \<Rightarrow> (string \<Rightarrow> rat option) \<Rightarrow> (string \<rightharpoonup> cell) \<Rightarrow> (string \<rightharpoonup> cell)" where
  "load_row ovf parse r =
     (let sex = sex_code ovf parse (cell_at r ''sex'') in
      r(''sex'' \<mapsto> Num (of_int sex), ''sex_label'' \<mapsto> series_map sex_labels sex))"

definition preprocess ::
  "(int \<Rightarrow> int) \<Rightarrow> (string \<Rightarrow> rat option) \<Rightarrow> dataframe \<Rightarrow> error + dataframe" where
  "preprocess ovf parse df =
     (if ''sex'' \<in> set (columns df) then
        Inr \<lparr>columns = (if ''sex_label'' \<in> set (columns df) then columns df
                         else columns df @ [''sex_label'']),
             rows = map (load_row ovf parse) (rows df)\<rparr>
      else Inl (KeyError ''sex''))"

section \<open>Presentation state and the dashboard update\<close>

text \<open>
  The variables bound to the GUI: \<^verbatim>\<open>gender_selected\<close>, \<^verbatim>\<open>filtered_df\<close>, the two
  figures, \<^verbatim>\<open>avg_age\<close> and the selected \<^verbatim>\<open>scenario\<close> (its id). A figure is whatever
  plotly builds: the type \<open>'fig\<close>.
\<close>

record 'fig state =
  gender_selected :: string
  filtered_df :: dataframe
  pie_fig :: 'fig
  box_fig :: 'fig
  avg_age :: cell
  scenario :: nat

definition initial_state :: "dataframe \<Rightarrow> 'fig \<Rightarrow> 'fig \<Rightarrow> nat \<Rightarrow> 'fig state" where
  "initial_state df_raw pie box sid =
     \<lparr>gender_selected = ''All'', filtered_df = df_raw, pie_fig = pie, box_fig = box,
      avg_age = Num 0, scenario = sid\<rparr>"

text \<open>
  \<^verbatim>\<open>
  def update_dash(state):
      subset = (df_raw if state.gender_selected == "All"
                else df_raw[df_raw["sex_label"] == state.gender_selected])
      state.filtered_df = subset
      state.avg_age = round(subset["age"].mean(), 1) if not subset.empty else 0
      state.pie_fig = px.pie(subset.groupby("sex_label")["target"].count()..., title=...)
      state.box_fig = px.box(subset, x="sex_label", y="chol", title=...)
  \<close>
  The handler reads the module's \<^verbatim>\<open>df_raw\<close> and assigns to the state one field after
  the other; an exception leaves the assignments made so far in place. The result is
  the exception, if any, and the state. The two plotly expressions are parameters:
  \<open>pie_chart\<close> gets the subset and the title, \<open>box_chart\<close> the subset.
\<close>

definition update_dash ::
  "(dataframe \<Rightarrow> string \<Rightarrow> error + 'fig) \<Rightarrow> (dataframe \<Rightarrow> error + 'fig) \<Rightarrow> dataframe \<Rightarrow>
   'fig state \<Rightarrow> error option \<times> 'fig state" where
  "update_dash pie_chart box_chart df_raw state =
     (case (if gender_selected state = ''All'' then Inr df_raw
            else (case getitem df_raw ''sex_label'' of
                    Inl e \<Rightarrow> Inl e
                  | Inr s \<Rightarrow> Inr (getitem_mask df_raw (series_eq s (gender_selected state))))) of
        Inl e \<Rightarrow> (Some e, state)
      | Inr subset_df \<Rightarrow>
          (let state1 = state\<lparr>filtered_df := subset_df\<rparr> in
           case (if \<not> df_empty subset_df then
                   (case getitem subset_df ''age'' of
                      Inl e \<Rightarrow> Inl e
                    | Inr ages \<Rightarrow> (case mean ages of Inl e \<Rightarrow> Inl e | Inr m \<Rightarrow> py_round m 1))
                 else Inr (Num 0)) of
             Inl e \<Rightarrow> (Some e, state1)
           | Inr a \<Rightarrow>
               (let state2 = state1\<lparr>avg_age := a\<rparr> in
                case pie_chart subset_df (''Target Count -- '' @ gender_selected state) of
                  Inl e \<Rightarrow> (Some e, state2)
                | Inr pie \<Rightarrow>
                    (let state3 = state2\<lparr>pie_fig := pie\<rparr> in
                     case box_chart subset_df of
                       Inl e \<Rightarrow> (Some e, state3)
                     | Inr box \<Rightarrow> (None, state3\<lparr>box_fig := box\<rparr>)))))"

section \<open>Data nodes, the task and the scenario\<close>

text \<open>
  A value held by a data node or passed to a task: nothing yet (\<^verbatim>\<open>None\<close>), a data
  frame, or a scalar (a string or a number).
\<close>

datatype pyval = PyNone | PyDf dataframe | PyScalar cell

type_synonym node_store = "string \<rightharpoonup> pyval"

record task =
  task_id :: string
  task_inputs :: "string list"
  task_function :: "pyval list \<Rightarrow> error + pyval list"
  task_outputs :: "string list"

record scenario_config =
  scenario_id :: string
  scenario_tasks :: "task list"

text \<open>
  The call \<^verbatim>\<open>compute_avg_age(*args)\<close> that runs the task's function on the values read,
  and its one returned value. The function is annotated \<^verbatim>\<open>(pd.DataFrame, str)\<close>; a call
  with anything else is a TypeError here.
\<close>

definition call_compute_avg_age :: "pyval list \<Rightarrow> error + pyval list" where
  "call_compute_avg_age args =
     (case args of
        [PyDf df, PyScalar (Str g)] \<Rightarrow>
          (case compute_avg_age df g of Inl e \<Rightarrow> Inl e | Inr a \<Rightarrow> Inr [PyScalar a])
      | _ \<Rightarrow> Inl TypeError)"

text \<open>
  \<^verbatim>\<open>
  filtered_df_cfg = Config.configure_data_node("filtered_df")
  gender_filter_cfg = Config.configure_data_node("gender_filter")
  avg_age_cfg = Config.configure_data_node("avg_age")
  task_cfg = Config.configure_task(
      "compute_avg_age", compute_avg_age, [filtered_df_cfg, gender_filter_cfg], avg_age_cfg)
  scenario_cfg = Config.configure_scenario("cardiac_scenario", [task_cfg])
  \<close>
\<close>

definition filtered_df_cfg :: string where
  "filtered_df_cfg = ''filtered_df''"

definition gender_filter_cfg :: string where
  "gender_filter_cfg = ''gender_filter''"

definition avg_age_cfg :: string where
  "avg_age_cfg = ''avg_age''"

definition task_cfg :: task where
  "task_cfg = \<lparr>task_id = ''compute_avg_age'',
     task_inputs = [filtered_df_cfg, gender_filter_cfg],
     task_function = call_compute_avg_age,
     task_outputs = [avg_age_cfg]\<rparr>"

definition scenario_cfg :: scenario_config where
  "scenario_cfg = \<lparr>scenario_id = ''cardiac_scenario'', scenario_tasks = [task_cfg]\<rparr>"

subsection \<open>The orchestration runtime\<close>

text \<open>
  Modelled from the spec: the runtime of the orchestration library, which is not in the
  program's source (sections 3 and 4.3). It holds the scenarios created so far, each
  with data nodes of its own and the tasks of its configuration, the next free scenario
  id, and the trace of what happened: node writes, submissions, GUI refreshes and
  notifications. A node that was never written holds \<^verbatim>\<open>None\<close>.
\<close>

record scenario_inst =
  config_id :: string
  nodes :: node_store
  tasks :: "task list"

datatype event = Written nat string | Submitted nat | Refreshed string | Notified string string

record taipy =
  scenarios :: "nat \<rightharpoonup> scenario_inst"
  next_id :: nat
  events :: "event list"

definition taipy_init :: taipy where
  "taipy_init = \<lparr>scenarios = Map.empty, next_id = 0, events = []\<rparr>"

text \<open>
  Modelled from the spec: reading the input nodes of a task, and writing its output
  nodes, in declared order (section 4.2). Reading a node that the store does not have
  is a KeyError.
\<close>

fun read_all :: "node_store \<Rightarrow> string list \<Rightarrow> error + pyval list" where
  "read_all store [] = Inr []"
| "read_all store (n # ns) =
     (case store n of
        None \<Rightarrow> Inl (KeyError n)
      | Some v \<Rightarrow> (case read_all store ns of Inl e \<Rightarrow> Inl e | Inr vs \<Rightarrow> Inr (v # vs)))"

fun write_all :: "node_store \<Rightarrow> (string \<times> pyval) list \<Rightarrow> node_store" where
  "write_all store [] = store"
| "write_all store ((n, v) # nvs) = write_all (store(n \<mapsto> v)) nvs"

text \<open>
  Modelled from the spec: the task executor of the orchestration library, which is not
  in the program's source (section 4.2): \<^verbatim>\<open>execute(task, node_store)\<close> reads the current
  values of the inputs in declared order, invokes the computation, and writes the
  returned values to the outputs in declared order; a computation that raises halts the
  execution and no output of that task is written.
\<close>

definition execute :: "task \<Rightarrow> node_store \<Rightarrow> error + node_store" where
  "execute tk store =
     (case read_all store (task_inputs tk) of
        Inl e \<Rightarrow> Inl e
      | Inr args \<Rightarrow>
          (case task_function tk args of
             Inl e \<Rightarrow> Inl e
           | Inr outs \<Rightarrow>
               if length outs = length (task_outputs tk)
               then Inr (write_all store (zip (task_outputs tk) outs))
               else Inl TypeError))"

text \<open>
  Modelled from the spec: the data nodes a scenario configuration declares (section
  4.3), which are the nodes its tasks read and write.
\<close>

definition node_names :: "scenario_config \<Rightarrow> string list" where
  "node_names cfg = concat (map (\<lambda>tk. task_inputs tk @ task_outputs tk) (scenario_tasks cfg))"

text \<open>
  Modelled from the spec: \<^verbatim>\<open>create_scenario\<close> of the orchestration library (section
  4.3): it allocates a fresh isolated set of data nodes matching the configuration's
  declared nodes, all of them empty, and binds the configuration's tasks to them.
\<close>

definition create_scenario :: "scenario_config \<Rightarrow> taipy \<Rightarrow> nat \<times> taipy" where
  "create_scenario cfg tp =
     (next_id tp,
      tp\<lparr>scenarios := (scenarios tp)(next_id tp \<mapsto>
            \<lparr>config_id = scenario_id cfg,
             nodes = (\<lambda>n. if n \<in> set (node_names cfg) then Some PyNone else None),
             tasks = scenario_tasks cfg\<rparr>),
         next_id := Suc (next_id tp)\<rparr>)"

text \<open>
  Modelled from the spec: the data node accessors of the orchestration library (section
  4.1). \<^verbatim>\<open>scenario.<node>.write(value)\<close> stores the value under the node of that
  scenario and triggers no computation; a read returns the value last written or the
  empty sentinel. A scenario that does not exist is a StateError, a node the scenario
  does not own an AttributeError.
\<close>

definition dn_write :: "nat \<Rightarrow> string \<Rightarrow> pyval \<Rightarrow> taipy \<Rightarrow> error + taipy" where
  "dn_write sid n v tp =
     (case scenarios tp sid of
        None \<Rightarrow> Inl (StateError sid)
      | Some sc \<Rightarrow>
          (case nodes sc n of
             None \<Rightarrow> Inl (AttributeError n)
           | Some old \<Rightarrow>
               Inr (tp\<lparr>scenarios := (scenarios tp)(sid \<mapsto> sc\<lparr>nodes := (nodes sc)(n \<mapsto> v)\<rparr>),
                       events := events tp @ [Written sid n]\<rparr>)))"

text \<open>
  Modelled from the spec: \<^verbatim>\<open>get_node(scenario_id, node_name)\<close> (section 4.3), the
  read-only projection of a scenario's data node.
\<close>

definition get_node :: "nat \<Rightarrow> string \<Rightarrow> taipy \<Rightarrow> error + pyval" where
  "get_node sid n tp =
     (case scenarios tp sid of
        None \<Rightarrow> Inl (StateError sid)
      | Some sc \<Rightarrow> (case nodes sc n of None \<Rightarrow> Inl (AttributeError n) | Some v \<Rightarrow> Inr v))"

text \<open>
  Modelled from the spec: a task only runs once all its declared input nodes have been
  written at least once (section 4.3); a task whose inputs are not all written is passed
  over, and a task that raises stops the run with the nodes as they were before it.
\<close>

definition written :: "node_store \<Rightarrow> string \<Rightarrow> bool" where
  "written store n = (case store n of None \<Rightarrow> False | Some PyNone \<Rightarrow> False | Some v \<Rightarrow> True)"

fun run_tasks :: "task list \<Rightarrow> node_store \<Rightarrow> error option \<times> node_store" where
  "run_tasks [] store = (None, store)"
| "run_tasks (tk # tks) store =
     (if list_all (written store) (task_inputs tk) then
        (case execute tk store of
           Inl e \<Rightarrow> (Some e, store)
         | Inr store' \<Rightarrow> run_tasks tks store')
      else run_tasks tks store)"

text \<open>
  Modelled from the spec: \<^verbatim>\<open>submit\<close> of the orchestration library (section 4.3), the
  synchronous variant: the tasks run in dependency order (the order of the list, for the
  one task of this program), a task only once all its inputs have been written; a task
  that raises stops the run and leaves the nodes as they were before it.
\<close>

definition submit :: "nat \<Rightarrow> taipy \<Rightarrow> error option \<times> taipy" where
  "submit sid tp =
     (case scenarios tp sid of
        None \<Rightarrow> (Some (StateError sid), tp)
      | Some sc \<Rightarrow>
          (case run_tasks (tasks sc) (nodes sc) of
             (err, store') \<Rightarrow>
               (err, tp\<lparr>scenarios := (scenarios tp)(sid \<mapsto> sc\<lparr>nodes := store'\<rparr>),
                        events := events tp @ [Submitted sid]\<rparr>)))"

subsection \<open>Saving the presentation values into the scenario\<close>

text \<open>
  Modelled from the spec: \<^verbatim>\<open>state.refresh(name)\<close> of the GUI library (section 4.4), an
  event the user interface sees; it changes no data node.
\<close>

definition refresh :: "string \<Rightarrow> taipy \<Rightarrow> taipy" where
  "refresh var tp = tp\<lparr>events := events tp @ [Refreshed var]\<rparr>"

text \<open>
  Modelled from the spec: \<^verbatim>\<open>notify(state, kind, message)\<close> of the GUI library (section
  4.4), the user-visible acknowledgment; it changes no data node.
\<close>

definition notify :: "string \<Rightarrow> string \<Rightarrow> taipy \<Rightarrow> taipy" where
  "notify kind msg tp = tp\<lparr>events := events tp @ [Notified kind msg]\<rparr>"

text \<open>
  \<^verbatim>\<open>
  def save_scenario(state):
      state.scenario.filtered_df.write(state.filtered_df)
      state.scenario.gender_filter.write(state.gender_selected)
      state.refresh("scenario")
      tp.gui.notify(state, "s", "Scenario saved -- submit to compute!")
  \<close>
  The result is the exception, if any, and the runtime as the handler left it.
\<close>

definition save_scenario :: "'fig state \<Rightarrow> taipy \<Rightarrow> error option \<times> taipy" where
  "save_scenario state tp =
     (case dn_write (scenario state) ''filtered_df'' (PyDf (filtered_df state)) tp of
        Inl e \<Rightarrow> (Some e, tp)
      | Inr tp1 \<Rightarrow>
          (case dn_write (scenario state) ''gender_filter''
                  (PyScalar (Str (gender_selected state))) tp1 of
             Inl e \<Rightarrow> (Some e, tp1)
           | Inr tp2 \<Rightarrow>
               (None, notify ''s'' ''Scenario saved -- submit to compute!''
                        (refresh ''scenario'' tp2))))"

text \<open>
  \<^verbatim>\<open>
  scenario = tp.create_scenario(scenario_cfg)
  scenario.filtered_df.write(df_raw)
  scenario.gender_filter.write("All")
  \<close>
\<close>

definition startup :: "dataframe \<Rightarrow> taipy \<Rightarrow> error + nat \<times> taipy" where
  "startup df_raw tp =
     (case create_scenario scenario_cfg tp of
        (sid, tp1) \<Rightarrow>
          (case dn_write sid ''filtered_df'' (PyDf df_raw) tp1 of
             Inl e \<Rightarrow> Inl e
           | Inr tp2 \<Rightarrow>
               (case dn_write sid ''gender_filter'' (PyScalar (Str ''All'')) tp2 of
                  Inl e \<Rightarrow> Inl e
                | Inr tp3 \<Rightarrow> Inr (sid, tp3))))"

section \<open>The function as the interpreter runs it\<close>

text \<open>
  Whether a Python function reads anything but its arguments is a matter of how its body
  resolves names. The body of \<^verbatim>\<open>compute_avg_age\<close> is therefore also given as syntax and
  run by the rules of the language: a name that is a parameter or is assigned in the body
  is local; any other name is looked up among the module's variables and, if the module
  has none of that name, among the builtins. The objects are those the body meets: data
  frames, series, boolean masks, truth values, strings and floats (a cell), integer
  literals, builtin functions and \<^verbatim>\<open>None\<close>.
\<close>

datatype obj =
    ODf dataframe | OSeries "cell list" | OMask "bool list" | OBool bool
  | OCell cell | OInt int | OBuiltin string | ONone

datatype expr =
    Name string
  | Const obj
  | IfExp expr expr expr
  | CompareEq expr expr
  | Subscript expr expr
  | Attribute expr string
  | MethodCall expr string
  | Call expr expr expr
  | UnaryNot expr

datatype stmt = Assign string expr | Return expr

record funcdef =
  fn_params :: "string list"
  fn_body :: "stmt list"

text \<open>
  \<^verbatim>\<open>
  def compute_avg_age(filtered_df, gender_filter):
      data = (filtered_df if gender_filter == "All"
              else filtered_df[filtered_df["sex_label"] == gender_filter])
      return round(data["age"].mean(), 1) if not data.empty else 0
  \<close>
  \<open>IfExp test body orelse\<close> is \<^verbatim>\<open>body if test else orelse\<close>; \<open>data_expr\<close> is the
  right-hand side of the assignment and \<open>return_expr\<close> the returned expression.
\<close>

definition data_expr :: expr where
  "data_expr =
     IfExp (CompareEq (Name ''gender_filter'') (Const (OCell (Str ''All''))))
       (Name ''filtered_df'')
       (Subscript (Name ''filtered_df'')
          (CompareEq (Subscript (Name ''filtered_df'') (Const (OCell (Str ''sex_label''))))
              (Name ''gender_filter'')))"

definition return_expr :: expr where
  "return_expr =
     IfExp (UnaryNot (Attribute (Name ''data'') ''empty''))
       (Call (Name ''round'')
          (MethodCall (Subscript (Name ''data'') (Const (OCell (Str ''age'')))) ''mean'')
          (Const (OInt 1)))
       (Const (OInt 0))"

definition compute_avg_age_src :: funcdef where
  "compute_avg_age_src =
     \<lparr>fn_params = [''filtered_df'', ''gender_filter''],
      fn_body = [Assign ''data'' data_expr, Return return_expr]\<rparr>"

definition builtins :: "string \<rightharpoonup> obj" where
  "builtins = [''round'' \<mapsto> OBuiltin ''round'']"

text \<open>
  Name resolution. \<open>lnames\<close> are the local names of the function; a local name that is
  not bound yet is an UnboundLocalError, not a module variable.
\<close>

definition lookup ::
  "string list \<Rightarrow> (string \<rightharpoonup> obj) \<Rightarrow> (string \<rightharpoonup> obj) \<Rightarrow> string \<Rightarrow> error + obj" where
  "lookup lnames globals locals n =
     (if n \<in> set lnames then
        (case locals n of None \<Rightarrow> Inl (UnboundLocalError n) | Some v \<Rightarrow> Inr v)
      else
        (case globals n of
           Some v \<Rightarrow> Inr v
         | None \<Rightarrow> (case builtins n of None \<Rightarrow> Inl (NameError n) | Some v \<Rightarrow> Inr v)))"

text \<open>
  The operations on objects, for the operand types the body meets; any other combination
  is outside this interpreter (\<open>Unsupported\<close>).
\<close>

definition truth :: "obj \<Rightarrow> error + bool" where
  "truth v = (case v of OBool b \<Rightarrow> Inr b | _ \<Rightarrow> Inl Unsupported)"

definition py_eq :: "obj \<Rightarrow> obj \<Rightarrow> error + obj" where
  "py_eq a b =
     (case (a, b) of
        (OCell (Str x), OCell (Str y)) \<Rightarrow> Inr (OBool (x = y))
      | (OSeries s, OCell (Str g)) \<Rightarrow> Inr (OMask (series_eq s g))
      | _ \<Rightarrow> Inl Unsupported)"

definition py_getitem :: "obj \<Rightarrow> obj \<Rightarrow> error + obj" where
  "py_getitem a i =
     (case (a, i) of
        (ODf d, OCell (Str c)) \<Rightarrow> (case getitem d c of Inl e \<Rightarrow> Inl e | Inr s \<Rightarrow> Inr (OSeries s))
      | (ODf d, OMask keep) \<Rightarrow> Inr (ODf (getitem_mask d keep))
      | _ \<Rightarrow> Inl Unsupported)"

definition py_getattr :: "obj \<Rightarrow> string \<Rightarrow> error + obj" where
  "py_getattr a name =
     (case a of
        ODf d \<Rightarrow> if name = ''empty'' then Inr (OBool (df_empty d)) else Inl (AttributeError name)
      | _ \<Rightarrow> Inl Unsupported)"

definition py_method :: "obj \<Rightarrow> string \<Rightarrow> error + obj" where
  "py_method a name =
     (case a of
        OSeries s \<Rightarrow>
          if name = ''mean'' then (case mean s of Inl e \<Rightarrow> Inl e | Inr m \<Rightarrow> Inr (OCell m))
          else Inl (AttributeError name)
      | _ \<Rightarrow> Inl Unsupported)"

definition py_call :: "obj \<Rightarrow> obj \<Rightarrow> obj \<Rightarrow> error + obj" where
  "py_call f a b =
     (case (f, a, b) of
        (OBuiltin name, OCell x, OInt n) \<Rightarrow>
          if name = ''round'' \<and> 0 \<le> n
          then (case py_round x (nat n) of Inl e \<Rightarrow> Inl e | Inr v \<Rightarrow> Inr (OCell v))
          else Inl Unsupported
      | _ \<Rightarrow> Inl Unsupported)"

text \<open>
  Evaluation, operands from left to right; a conditional expression evaluates its test
  and then one branch only.
\<close>

fun eval_expr ::
  "string list \<Rightarrow> (string \<rightharpoonup> obj) \<Rightarrow> (string \<rightharpoonup> obj) \<Rightarrow> expr \<Rightarrow> error + obj" where
  "eval_expr lns G L (Name n) = lookup lns G L n"
| "eval_expr lns G L (Const v) = Inr v"
| "eval_expr lns G L (IfExp t a b) =
     (case eval_expr lns G L t of
        Inl e \<Rightarrow> Inl e
      | Inr v \<Rightarrow>
          (case truth v of
             Inl e \<Rightarrow> Inl e
           | Inr c \<Rightarrow> if c then eval_expr lns G L a else eval_expr lns G L b))"
| "eval_expr lns G L (CompareEq a b) =
     (case eval_expr lns G L a of
        Inl e \<Rightarrow> Inl e
      | Inr x \<Rightarrow> (case eval_expr lns G L b of Inl e \<Rightarrow> Inl e | Inr y \<Rightarrow> py_eq x y))"
| "eval_expr lns G L (Subscript a i) =
     (case eval_expr lns G L a of
        Inl e \<Rightarrow> Inl e
      | Inr x \<Rightarrow> (case eval_expr lns G L i of Inl e \<Rightarrow> Inl e | Inr y \<Rightarrow> py_getitem x y))"
| "eval_expr lns G L (Attribute a name) =
     (case eval_expr lns G L a of Inl e \<Rightarrow> Inl e | Inr x \<Rightarrow> py_getattr x name)"
| "eval_expr lns G L (MethodCall a name) =
     (case eval_expr lns G L a of Inl e \<Rightarrow> Inl e | Inr x \<Rightarrow> py_method x name)"
| "eval_expr lns G L (Call f a b) =
     (case eval_expr lns G L f of
        Inl e \<Rightarrow> Inl e
      | Inr fv \<Rightarrow>
          (case eval_expr lns G L a of
             Inl e \<Rightarrow> Inl e
           | Inr x \<Rightarrow> (case eval_expr lns G L b of Inl e \<Rightarrow> Inl e | Inr y \<Rightarrow> py_call fv x y)))"
| "eval_expr lns G L (UnaryNot a) =
     (case eval_expr lns G L a of
        Inl e \<Rightarrow> Inl e
      | Inr x \<Rightarrow> (case truth x of Inl e \<Rightarrow> Inl e | Inr c \<Rightarrow> Inr (OBool (\<not> c))))"

fun exec ::
  "string list \<Rightarrow> (string \<rightharpoonup> obj) \<Rightarrow> (string \<rightharpoonup> obj) \<Rightarrow> stmt list \<Rightarrow> error + obj" where
  "exec lns G L [] = Inr ONone"
| "exec lns G L (Assign n e # ss) =
     (case eval_expr lns G L e of Inl x \<Rightarrow> Inl x | Inr v \<Rightarrow> exec lns G (L(n \<mapsto> v)) ss)"
| "exec lns G L (Return e # ss) = eval_expr lns G L e"

fun targets :: "stmt list \<Rightarrow> string list" where
  "targets [] = []"
| "targets (Assign n e # ss) = n # targets ss"
| "targets (Return e # ss) = targets ss"

text \<open>
  A call binds the parameters to the arguments and runs the body, with the module's
  variables \<open>globals\<close> as they are at the time of the call.
\<close>

definition call_function :: "(string \<rightharpoonup> obj) \<Rightarrow> funcdef \<Rightarrow> obj list \<Rightarrow> error + obj" where
  "call_function globals f args =
     (if length args = length (fn_params f) then
        exec (fn_params f @ targets (fn_body f)) globals
          (map_of (zip (fn_params f) args)) (fn_body f)
      else Inl TypeError)"

text \<open>The returned object as a cell: the integer literal 0 is the number 0.\<close>

definition returned :: "error + obj \<Rightarrow> error + cell" where
  "returned res =
     (case res of
        Inl e \<Rightarrow> Inl e
      | Inr (OCell c) \<Rightarrow> Inr c
      | Inr (OInt i) \<Rightarrow> Inr (Num (of_int i))
      | Inr _ \<Rightarrow> Inl Unsupported)"

section \<open>The specification's notions\<close>

text \<open>
  The specification speaks of the data frame restricted to the rows whose
  \<^verbatim>\<open>sex_label\<close> equals a category, and of the subset a filter selects: the whole frame
  for the filter \<^verbatim>\<open>"All"\<close>, the restriction otherwise. Both are written here from its
  words, next to the program's own selection by a boolean index.
\<close>

definition restrict_to :: "dataframe \<Rightarrow> string \<Rightarrow> dataframe" where
  "restrict_to df g = df\<lparr>rows := filter (\<lambda>r. r ''sex_label'' = Some (Str g)) (rows df)\<rparr>"

definition subset_selected :: "dataframe \<Rightarrow> string \<Rightarrow> dataframe" where
  "subset_selected df g = (if g = ''All'' then df else restrict_to df g)"

text \<open>
  The statistic of a subset as the return statement of \<^verbatim>\<open>compute_avg_age\<close> computes it:
  0 for an empty frame, the mean age rounded to one decimal otherwise.
\<close>

definition avg_of :: "dataframe \<Rightarrow> error + cell" where
  "avg_of d =
     (if \<not> df_empty d then
        (case getitem d ''age'' of
           Inl e \<Rightarrow> Inl e
         | Inr ages \<Rightarrow> (case mean ages of Inl e \<Rightarrow> Inl e | Inr m \<Rightarrow> py_round m 1))
      else Inr (Num 0))"

text \<open>
  Committing a data set and a filter to a fresh scenario and submitting it: the scenario
  is created, \<^verbatim>\<open>save_scenario\<close> writes the two presentation values, \<^verbatim>\<open>submit\<close> runs the
  task, and the \<^verbatim>\<open>avg_age\<close> node is read. The result holds the exceptions of the two
  steps, if any, and the value read.
\<close>

definition commit_and_submit ::
  "dataframe \<Rightarrow> string \<Rightarrow> error option \<times> error option \<times> (error + pyval)" where
  "commit_and_submit df g =
     (case create_scenario scenario_cfg taipy_init of
        (sid, tp0) \<Rightarrow>
          (case save_scenario ((initial_state df () () sid)\<lparr>gender_selected := g\<rparr>) tp0 of
             (e1, tp1) \<Rightarrow>
               (case submit sid tp1 of
                  (e2, tp2) \<Rightarrow> (e1, e2, get_node sid ''avg_age'' tp2))))"

subsection \<open>Example frames\<close>

text \<open>A frame in which \<^verbatim>\<open>"All"\<close> is itself a label of the \<^verbatim>\<open>sex_label\<close> column.\<close>

definition labelled_All :: dataframe where
  "labelled_All = \<lparr>columns = [''sex_label'', ''age''],
     rows = [mk_row ''All'' 10, mk_row ''Male'' 20]\<rparr>"

text \<open>
  A frame whose second row has a blank age cell: the spreadsheet reader delivers a blank
  cell as the empty string.
\<close>

definition blank_age :: dataframe where
  "blank_age = \<lparr>columns = [''sex_label'', ''age''],
     rows = [mk_row ''Male'' 50, [''sex_label'' \<mapsto> Str ''Male'', ''age'' \<mapsto> Str '''']]\<rparr>"

text \<open>The data frame of an empty sheet: no column, no row.\<close>

definition empty_sheet :: dataframe where
  "empty_sheet = \<lparr>columns = [], rows = []\<rparr>"

text \<open>
  A raw sheet with the sex codes 0, 1 and 2, a text cell and a fractional cell, and a
  parser that reads the one string \<^verbatim>\<open>"1"\<close>.
\<close>

definition raw_row :: "cell \<Rightarrow> rat \<Rightarrow> (string \<rightharpoonup> cell)" where
  "raw_row s a = [''sex'' \<mapsto> s, ''age'' \<mapsto> Num a]"

definition raw_sheet :: dataframe where
  "raw_sheet = \<lparr>columns = [''sex'', ''age''],
     rows = [raw_row (Num 0) 45, raw_row (Num 1) 50, raw_row (Num 2) 40,
             raw_row (Str ''f'') 70, raw_row (Num (1 / 2)) 58]\<rparr>"

definition parse_one :: "string \<Rightarrow> rat option" where
  "parse_one s = (if s = ''1'' then Some 1 else None)"

definition no_chart :: "dataframe \<Rightarrow> string \<Rightarrow> error + unit" where
  "no_chart d title = Inr ()"

definition no_box :: "dataframe \<Rightarrow> error + unit" where
  "no_box d = Inr ()"

text \<open>The raw sheet after loading, as \<^verbatim>\<open>preprocess\<close> returns it.\<close>

definition loaded_sheet :: dataframe where
  "loaded_sheet = \<lparr>columns = [''sex'', ''age'', ''sex_label''],
     rows = map (load_row wrap_int64 parse_one) (rows raw_sheet)\<rparr>"

subsection \<open>Example runtimes\<close>

text \<open>A node store with the ten-row data set, the filter Male and no average yet.\<close>

definition example_store :: node_store where
  "example_store = [''filtered_df'' \<mapsto> PyDf dataset10, ''gender_filter'' \<mapsto> PyScalar (Str ''Male''),
     ''avg_age'' \<mapsto> PyNone]"

text \<open>The runtime after two scenarios have been created from \<^verbatim>\<open>scenario_cfg\<close>.\<close>

definition two_scenarios :: taipy where
  "two_scenarios = snd (create_scenario scenario_cfg (snd (create_scenario scenario_cfg taipy_init)))"

text \<open>The runtime after the start-up block has run on the ten-row data set.\<close>

definition started :: taipy where
  "started = (case startup dataset10 taipy_init of Inr (sid, tp) \<Rightarrow> tp | Inl e \<Rightarrow> taipy_init)"

text \<open>
  Two states of the module: its variables before any selection, and after a selection
  of Male. The module has a variable \<^verbatim>\<open>filtered_df\<close> of its own, which the parameter of
  that name hides.
\<close>

definition module_before :: "string \<rightharpoonup> obj" where
  "module_before = [''df_raw'' \<mapsto> ODf dataset10, ''gender_selected'' \<mapsto> OCell (Str ''All''),
     ''filtered_df'' \<mapsto> ODf dataset10, ''avg_age'' \<mapsto> OInt 0]"

definition module_after :: "string \<rightharpoonup> obj" where
  "module_after = [''df_raw'' \<mapsto> ODf dataset10, ''gender_selected'' \<mapsto> OCell (Str ''Male''),
     ''filtered_df'' \<mapsto> ODf labelled_All, ''avg_age'' \<mapsto> OCell (Num 55)]"

section \<open>Properties of the pandas operations\<close>

lemma cell_at_Str: "cell_at r c = Str g \<longleftrightarrow> r c = Some (Str g)"
  by (auto simp: cell_at_def split: option.splits)

lemma mask_rows:
  "map fst (filter snd (zip rs (map (\<lambda>c. c = Str g) (map (\<lambda>r. cell_at r k) rs)))) =
   filter (\<lambda>r. r k = Some (Str g)) rs"
  by (induction rs) (auto simp: cell_at_Str)

text \<open>The boolean index of the program selects the restriction of the specification.\<close>

lemma getitem_mask_series_eq:
  "getitem_mask df (series_eq (map (\<lambda>r. cell_at r ''sex_label'') (rows df)) g) = restrict_to df g"
  unfolding getitem_mask_def series_eq_def restrict_to_def mask_rows ..

lemma compute_avg_age_All: "compute_avg_age df ''All'' = avg_of df"
  by (simp add: compute_avg_age_def avg_of_def)

lemma compute_avg_age_filter:
  assumes "g \<noteq> ''All''" and "''sex_label'' \<in> set (columns df)"
  shows "compute_avg_age df g = avg_of (restrict_to df g)"
  using assms by (simp add: compute_avg_age_def avg_of_def getitem_def getitem_mask_series_eq)

lemma compute_avg_age_no_column:
  assumes "g \<noteq> ''All''" and "''sex_label'' \<notin> set (columns df)"
  shows "compute_avg_age df g = Inl (KeyError ''sex_label'')"
  using assms by (simp add: compute_avg_age_def getitem_def)

lemma compute_avg_age_selected:
  assumes "g = ''All'' \<or> ''sex_label'' \<in> set (columns df)"
  shows "compute_avg_age df g = avg_of (subset_selected df g)"
  using assms by (auto simp: subset_selected_def compute_avg_age_All compute_avg_age_filter)

lemma subset_selected_columns: "columns (subset_selected df g) = columns df"
  by (simp add: subset_selected_def restrict_to_def)

lemma subset_selected_rows: "set (rows (subset_selected df g)) \<subseteq> set (rows df)"
  by (auto simp: subset_selected_def restrict_to_def)

lemma mean_numeric:
  assumes "\<not> list_ex is_str s"
  shows "\<exists>m. mean s = Inr m \<and> \<not> is_str m"
proof -
  have "\<not> list_ex is_str (filter (\<lambda>c. c \<noteq> NaN) s)"
    using assms by (auto simp: list_ex_iff)
  then show ?thesis by (simp add: mean_def Let_def)
qed

lemma py_round_numeric:
  assumes "\<not> is_str m"
  shows "\<exists>v. py_round m n = Inr v \<and> \<not> is_str v"
  using assms by (cases m) (simp_all add: py_round_def)

lemma avg_of_numeric:
  assumes "''age'' \<in> set (columns d)"
    and "list_all (\<lambda>r. \<not> is_str (cell_at r ''age'')) (rows d)"
  shows "\<exists>v. avg_of d = Inr v \<and> \<not> is_str v \<and> (rows d = [] \<longrightarrow> v = Num 0)"
proof (cases "df_empty d")
  case True
  then show ?thesis by (simp add: avg_of_def)
next
  case False
  then have ne: "rows d \<noteq> []" by (simp add: df_empty_def)
  have "\<not> list_ex is_str (map (\<lambda>r. cell_at r ''age'') (rows d))"
    using assms(2) by (auto simp: list_ex_iff list_all_iff)
  then obtain m where m: "mean (map (\<lambda>r. cell_at r ''age'') (rows d)) = Inr m" "\<not> is_str m"
    using mean_numeric by blast
  obtain v where v: "py_round m 1 = Inr v" "\<not> is_str v"
    using py_round_numeric [OF m(2)] by blast
  from False ne assms(1) m v show ?thesis
    by (simp add: avg_of_def getitem_def)
qed

subsection \<open>The example data set, evaluated\<close>

lemma dataset10_columns: "columns dataset10 = [''sex_label'', ''age'']"
  by (simp add: dataset10_def)

lemma dataset10_female_ages:
  "getitem (restrict_to dataset10 ''Female'') ''age'' = Inr [Num 45, Num 70, Num 40, Num 58]"
  by (simp add: getitem_def restrict_to_def dataset10_def mk_row_def cell_at_def)

lemma mean_female_ages: "mean [Num 45, Num 70, Num 40, Num 58] = Inr (Num (213 / 4))"
  by code_simp

lemma round_female_mean: "py_round (Num (213 / 4)) 1 = Inr (Num (266 / 5))"
  by code_simp

lemma avg_age_female: "compute_avg_age dataset10 ''Female'' = Inr (Num (266 / 5))"
  by code_simp

lemma avg_age_male: "compute_avg_age dataset10 ''Male'' = Inr (Num 55)"
  by code_simp

lemmas cfg_defs =
  scenario_cfg_def task_cfg_def filtered_df_cfg_def gender_filter_cfg_def avg_age_cfg_def
  node_names_def

section \<open>The task computation: claims\<close>

text \<open>
  Claim C2, as amended. When the filter is \<^verbatim>\<open>"All"\<close> or the data frame has a
  \<^verbatim>\<open>sex_label\<close> column, and the subset the filter selects has no row, then
  \<^verbatim>\<open>compute_avg_age\<close> returns the number 0: it does not raise and does not return NaN.
\<close>

theorem empty_subset_gives_zero:
  assumes "g = ''All'' \<or> ''sex_label'' \<in> set (columns df)"
    and "rows (subset_selected df g) = []"
  shows "compute_avg_age df g = Inr (Num 0)"
proof (cases "g = ''All''")
  case True
  with assms(2) show ?thesis
    by (simp add: compute_avg_age_All avg_of_def df_empty_def subset_selected_def)
next
  case False
  with assms have "''sex_label'' \<in> set (columns df)" "rows (restrict_to df g) = []"
    by (simp_all add: subset_selected_def)
  with False show ?thesis
    by (simp add: compute_avg_age_filter avg_of_def df_empty_def)
qed

theorem empty_subset_gives_zero_witness:
  "''sex_label'' \<in> set (columns dataset10) \<and>
   rows (subset_selected dataset10 ''Other'') = [] \<and>
   compute_avg_age dataset10 ''Other'' = Inr (Num 0)"
proof -
  have c: "''sex_label'' \<in> set (columns dataset10)"
    by (simp add: dataset10_columns)
  have e: "rows (subset_selected dataset10 ''Other'') = []"
    by (simp add: subset_selected_def restrict_to_def dataset10_def mk_row_def)
  from c have "''Other'' = ''All'' \<or> ''sex_label'' \<in> set (columns dataset10)" ..
  then have "compute_avg_age dataset10 ''Other'' = Inr (Num 0)"
    using e by (rule empty_subset_gives_zero)
  with c e show ?thesis by simp
qed

text \<open>
  Claim C2 as stated, for every data frame, fails on the frame of an empty sheet, which
  has no \<^verbatim>\<open>sex_label\<close> column: no row has the label \<^verbatim>\<open>"Female"\<close>, so the selected
  subset is empty, and the comparison \<^verbatim>\<open>filtered_df["sex_label"] == gender_filter\<close>,
  evaluated before the emptiness guard, raises KeyError.
\<close>

theorem empty_subset_missing_column_raises:
  "rows (subset_selected empty_sheet ''Female'') = [] \<and>
   compute_avg_age empty_sheet ''Female'' = Inl (KeyError ''sex_label'') \<and>
   compute_avg_age empty_sheet ''Female'' \<noteq> Inr (Num 0)"
  by (simp add: subset_selected_def restrict_to_def compute_avg_age_def getitem_def
      empty_sheet_def)

text \<open>
  Claim C3, as amended. On the ten-row data set (six Male rows, four Female rows, ages
  50, 55, 60, 45, 70, 65, 40, 48, 52, 58) the filter \<^verbatim>\<open>"Female"\<close> selects the ages
  45, 70, 40, 58; their mean is 53.25, and rounding to one decimal sends the tie to the
  even digit: the task computation yields 53.2, and so does committing the data set and
  the filter to a scenario and submitting it.
\<close>

theorem female_avg_age_example:
  "getitem (restrict_to dataset10 ''Female'') ''age'' = Inr [Num 45, Num 70, Num 40, Num 58] \<and>
   mean [Num 45, Num 70, Num 40, Num 58] = Inr (Num (213 / 4)) \<and>
   py_round (Num (213 / 4)) 1 = Inr (Num (266 / 5)) \<and>
   compute_avg_age dataset10 ''Female'' = Inr (Num (266 / 5)) \<and>
   commit_and_submit dataset10 ''Female'' = (None, None, Inr (PyScalar (Num (266 / 5))))"
proof (intro conjI)
  show "getitem (restrict_to dataset10 ''Female'') ''age'' = Inr [Num 45, Num 70, Num 40, Num 58]"
    by (rule dataset10_female_ages)
  show "mean [Num 45, Num 70, Num 40, Num 58] = Inr (Num (213 / 4))"
    by (rule mean_female_ages)
  show "py_round (Num (213 / 4)) 1 = Inr (Num (266 / 5))"
    by (rule round_female_mean)
  show "compute_avg_age dataset10 ''Female'' = Inr (Num (266 / 5))"
    by (rule avg_age_female)
  show "commit_and_submit dataset10 ''Female'' = (None, None, Inr (PyScalar (Num (266 / 5))))"
    by (simp add: commit_and_submit_def create_scenario_def taipy_init_def cfg_defs
        save_scenario_def initial_state_def dn_write_def notify_def refresh_def submit_def
        written_def execute_def call_compute_avg_age_def avg_age_female get_node_def)
qed

theorem female_avg_age_example_witness:
  "snd (snd (commit_and_submit dataset10 ''Female'')) = Inr (PyScalar (Num (266 / 5)))"
  using female_avg_age_example by simp

text \<open>
  Claim C3 as stated gives 53.3 for this data set. The program's value is 53.2, which is
  not 53.3.
\<close>

theorem female_avg_age_is_not_53_3:
  "compute_avg_age dataset10 ''Female'' \<noteq> Inr (Num (533 / 10)) \<and>
   snd (snd (commit_and_submit dataset10 ''Female'')) \<noteq> Inr (PyScalar (Num (533 / 10)))"
proof -
  have "commit_and_submit dataset10 ''Female'' = (None, None, Inr (PyScalar (Num (266 / 5))))"
    by (simp add: commit_and_submit_def create_scenario_def taipy_init_def cfg_defs
        save_scenario_def initial_state_def dn_write_def notify_def refresh_def submit_def
        written_def execute_def call_compute_avg_age_def avg_age_female get_node_def)
  then show ?thesis by (simp add: avg_age_female)
qed

text \<open>
  Claim C4, as amended. For every data frame with a \<^verbatim>\<open>sex_label\<close> column and every
  filter \<open>g\<close> other than \<^verbatim>\<open>"All"\<close>, in particular every category value of that column
  other than \<^verbatim>\<open>"All"\<close>, \<^verbatim>\<open>compute_avg_age(df, g)\<close> equals \<^verbatim>\<open>compute_avg_age(df', "All")\<close>
  where \<open>df'\<close> is \<open>df\<close> restricted to the rows whose label is \<open>g\<close>.
\<close>

theorem filter_agrees_with_restriction:
  assumes "g \<noteq> ''All''" and "''sex_label'' \<in> set (columns df)"
  shows "compute_avg_age df g = compute_avg_age (restrict_to df g) ''All''"
  using assms by (simp add: compute_avg_age_filter compute_avg_age_All)

theorem filter_agrees_with_restriction_witness:
  "''Female'' \<noteq> ''All'' \<and> ''sex_label'' \<in> set (columns dataset10) \<and>
   compute_avg_age (restrict_to dataset10 ''Female'') ''All'' = Inr (Num (266 / 5))"
proof -
  have g: "''Female'' \<noteq> ''All''" by simp
  have c: "''sex_label'' \<in> set (columns dataset10)" by (simp add: dataset10_columns)
  from g c have "compute_avg_age dataset10 ''Female'' =
      compute_avg_age (restrict_to dataset10 ''Female'') ''All''"
    by (rule filter_agrees_with_restriction)
  with c show ?thesis by (simp add: avg_age_female)
qed

text \<open>
  Claim C4 as stated, for every category value, fails where \<^verbatim>\<open>"All"\<close> is itself a label
  of the column: the guard \<^verbatim>\<open>gender_filter == "All"\<close> takes the whole frame (mean 15),
  while the rows labelled \<^verbatim>\<open>"All"\<close> alone have mean 10.
\<close>

theorem filter_All_label_disagrees:
  "Str ''All'' \<in> set (map (\<lambda>r. cell_at r ''sex_label'') (rows labelled_All)) \<and>
   compute_avg_age labelled_All ''All'' = Inr (Num 15) \<and>
   compute_avg_age (restrict_to labelled_All ''All'') ''All'' = Inr (Num 10) \<and>
   compute_avg_age labelled_All ''All'' \<noteq> compute_avg_age (restrict_to labelled_All ''All'') ''All''"
proof -
  have 1: "Str ''All'' \<in> set (map (\<lambda>r. cell_at r ''sex_label'') (rows labelled_All))"
    by (simp add: labelled_All_def mk_row_def cell_at_def)
  have 2: "compute_avg_age labelled_All ''All'' = Inr (Num 15)"
    by code_simp
  have 3: "compute_avg_age (restrict_to labelled_All ''All'') ''All'' = Inr (Num 10)"
    by code_simp
  from 1 2 3 show ?thesis by simp
qed

text \<open>
  Claim C9, as amended. For every data frame that has the columns \<^verbatim>\<open>sex_label\<close> and
  \<^verbatim>\<open>age\<close> and whose age cells are numbers or missing (no string), and for every filter
  string, also one outside All, Male and Female, \<^verbatim>\<open>compute_avg_age\<close> returns a number
  or NaN and does not raise; when the selected subset has no row the guard returns 0, so
  that no mean over zero rows is taken.
\<close>

theorem compute_avg_age_total:
  assumes "''sex_label'' \<in> set (columns df)" and "''age'' \<in> set (columns df)"
    and "list_all (\<lambda>r. \<not> is_str (cell_at r ''age'')) (rows df)"
  shows "\<exists>v. compute_avg_age df g = Inr v \<and> \<not> is_str v \<and>
           (rows (subset_selected df g) = [] \<longrightarrow> v = Num 0)"
proof -
  let ?d = "subset_selected df g"
  have "''age'' \<in> set (columns ?d)"
    using assms(2) by (simp add: subset_selected_columns)
  moreover have "list_all (\<lambda>r. \<not> is_str (cell_at r ''age'')) (rows ?d)"
    using assms(3) subset_selected_rows [of df g] by (auto simp: list_all_iff)
  ultimately have "\<exists>v. avg_of ?d = Inr v \<and> \<not> is_str v \<and> (rows ?d = [] \<longrightarrow> v = Num 0)"
    by (rule avg_of_numeric)
  with assms(1) show ?thesis by (simp add: compute_avg_age_selected)
qed

theorem compute_avg_age_total_witness:
  "''sex_label'' \<in> set (columns dataset10) \<and> ''age'' \<in> set (columns dataset10) \<and>
   list_all (\<lambda>r. \<not> is_str (cell_at r ''age'')) (rows dataset10) \<and>
   (\<exists>v. compute_avg_age dataset10 ''Unknown'' = Inr v \<and> \<not> is_str v)"
proof -
  have 1: "''sex_label'' \<in> set (columns dataset10)" and 2: "''age'' \<in> set (columns dataset10)"
    by (simp_all add: dataset10_columns)
  have 3: "list_all (\<lambda>r. \<not> is_str (cell_at r ''age'')) (rows dataset10)"
    by (simp add: dataset10_def mk_row_def cell_at_def)
  from compute_avg_age_total [OF 1 2 3, of "''Unknown''"]
  have "\<exists>v. compute_avg_age dataset10 ''Unknown'' = Inr v \<and> \<not> is_str v" by blast
  with 1 2 3 show ?thesis by simp
qed

text \<open>
  Claim C9 as stated asks only for the two columns. A frame that has both, with a blank
  age cell read from the sheet as the empty string, makes the mean raise TypeError.
\<close>

theorem string_age_raises:
  "''sex_label'' \<in> set (columns blank_age) \<and> ''age'' \<in> set (columns blank_age) \<and>
   compute_avg_age blank_age ''All'' = Inl TypeError"
  by code_simp

section \<open>Loading: claims\<close>

lemma trunc_of_int: "trunc (of_int n) = n"
  by (simp add: trunc_def)

lemma trunc_fraction:
  assumes "- 1 < q" and "q < 1"
  shows "trunc q = 0"
proof (cases "0 \<le> q")
  case True
  with assms(2) have "\<lfloor>q\<rfloor> = 0" by (simp add: floor_eq_iff)
  with True show ?thesis by (simp add: trunc_def)
next
  case False
  with assms(1) have "\<lceil>q\<rceil> = 0" by (simp add: ceiling_eq_iff)
  with False show ?thesis by (simp add: trunc_def)
qed

lemma trunc_one:
  assumes "1 \<le> q" and "q < 2"
  shows "trunc q = 1"
proof -
  from assms have "\<lfloor>q\<rfloor> = 1" by (simp add: floor_eq_iff)
  with assms(1) show ?thesis by (simp add: trunc_def)
qed

lemma trunc_upper:
  assumes "2 \<le> q"
  shows "2 \<le> trunc q"
proof -
  from assms have "2 \<le> \<lfloor>q\<rfloor>" by (simp add: le_floor_iff)
  with assms show ?thesis by (simp add: trunc_def)
qed

lemma trunc_lower:
  assumes "q \<le> - 1"
  shows "trunc q \<le> - 1"
proof -
  from assms have "\<lceil>q\<rceil> \<le> - 1" by (simp add: ceiling_le_iff)
  with assms show ?thesis by (simp add: trunc_def)
qed

lemma trunc_int64:
  assumes "- (2 ^ 63) \<le> q" and "q < 2 ^ 63"
  shows "- (2 ^ 63) \<le> trunc q \<and> trunc q < 2 ^ 63"
proof (cases "0 \<le> q")
  case True
  then have "0 \<le> \<lfloor>q\<rfloor>" by simp
  moreover from assms(2) have "\<lfloor>q\<rfloor> < 2 ^ 63" by (simp add: floor_less_iff)
  ultimately show ?thesis using True by (simp add: trunc_def)
next
  case False
  then have "\<lceil>q\<rceil> \<le> 0" by (simp add: ceiling_le_iff)
  moreover from assms(1) have "- (2 ^ 63) \<le> \<lceil>q\<rceil>" by (simp add: le_ceiling_iff)
  ultimately show ?thesis using False by (simp add: trunc_def)
qed

lemma astype_int_in_range:
  assumes "- (2 ^ 63) \<le> q" and "q < 2 ^ 63"
  shows "astype_int ovf q = trunc q"
  using trunc_int64 [OF assms] by (simp add: astype_int_def Let_def)

text \<open>An unsigned 64-bit value of \<open>2 ^ 63\<close> wraps around to the least 64-bit integer.\<close>

lemma astype_int_wraps: "astype_int wrap_int64 (2 ^ 63) = - (2 ^ 63)"
proof -
  have "trunc (2 ^ 63) = 2 ^ 63"
    using trunc_of_int [of "2 ^ 63"] by simp
  then show ?thesis by (simp add: astype_int_def wrap_int64_def)
qed

lemma load_row_sex:
  "cell_at (load_row ovf parse r) ''sex'' = Num (of_int (sex_code ovf parse (cell_at r ''sex'')))"
  by (simp add: load_row_def Let_def cell_at_def)

lemma load_row_label:
  "cell_at (load_row ovf parse r) ''sex_label'' =
   series_map sex_labels (sex_code ovf parse (cell_at r ''sex''))"
  by (simp add: load_row_def Let_def cell_at_def)

lemma series_map_sex_labels:
  "series_map sex_labels code =
     (if code = 0 then Str ''Female'' else if code = 1 then Str ''Male'' else NaN)"
  by (simp add: series_map_def sex_labels_def)

lemma sex_code_coerced: "to_numeric parse c = None \<Longrightarrow> sex_code ovf parse c = 0"
  by (simp add: sex_code_def fillna_def astype_int_def trunc_def)

lemma sex_code_numeric:
  assumes "to_numeric parse c = Some q" and "- (2 ^ 63) \<le> q" and "q < 2 ^ 63"
  shows "sex_code ovf parse c = trunc q"
  using assms by (simp add: sex_code_def fillna_def astype_int_in_range)

lemma unlabelled_not_selected:
  assumes "cell_at r ''sex_label'' = NaN" and "g \<noteq> ''All''"
  shows "r \<notin> set (rows (subset_selected df g))"
  using assms by (auto simp: subset_selected_def restrict_to_def cell_at_def)

lemma preprocess_rows:
  "preprocess ovf parse df = Inr df' \<Longrightarrow> rows df' = map (load_row ovf parse) (rows df)"
  by (auto simp: preprocess_def split: if_splits)

lemma preprocess_columns:
  "preprocess ovf parse df = Inr df' \<Longrightarrow> ''sex_label'' \<in> set (columns df')"
  by (auto simp: preprocess_def split: if_splits)

text \<open>
  Claim C10, as amended. Let \<open>df'\<close> be the loaded frame and \<open>r\<close> a row of the raw
  sheet; its loaded row is a row of \<open>df'\<close>, and its sex code is the integer that the
  conversion leaves in the \<^verbatim>\<open>sex\<close> column. A raw sex value that is not numeric, or is
  missing, gets the code 0 and the label Female. A numeric raw value is cut to an
  integer towards zero before it is labelled: within the 64-bit range its code is that
  integer, so that a value strictly between -1 and 1 gets the code 0 and the label
  Female, a value from 1 up to but excluding 2 gets the code 1 and the label Male, and a
  value of at most -1 or at least 2 gets no label. Whatever the raw value, the code 0
  gets Female, the code 1 gets Male, and any other code gets no label (NaN): such a row
  is in neither the subset selected by \<^verbatim>\<open>"Male"\<close> nor the one selected by \<^verbatim>\<open>"Female"\<close>,
  and it is in the subset selected by \<^verbatim>\<open>"All"\<close>; these are the subsets over which
  \<^verbatim>\<open>compute_avg_age\<close> averages.
\<close>

theorem sex_normalization:
  assumes "preprocess ovf parse df = Inr df'" and "r \<in> set (rows df)"
  shows "(let raw = to_numeric parse (cell_at r ''sex'');
              code = sex_code ovf parse (cell_at r ''sex'');
              r' = load_row ovf parse r;
              label = cell_at r' ''sex_label''
          in r' \<in> set (rows df') \<and>
             cell_at r' ''sex'' = Num (of_int code) \<and>
             (raw = None \<longrightarrow> code = 0 \<and> label = Str ''Female'') \<and>
             (\<forall>q. raw = Some q \<and> - (2 ^ 63) \<le> q \<and> q < 2 ^ 63 \<longrightarrow> code = trunc q) \<and>
             (\<forall>q. raw = Some q \<and> - 1 < q \<and> q < 1 \<longrightarrow> code = 0 \<and> label = Str ''Female'') \<and>
             (\<forall>q. raw = Some q \<and> 1 \<le> q \<and> q < 2 \<longrightarrow> code = 1 \<and> label = Str ''Male'') \<and>
             (\<forall>q. raw = Some q \<and> (- (2 ^ 63) \<le> q \<and> q \<le> - 1 \<or> 2 \<le> q \<and> q < 2 ^ 63) \<longrightarrow>
                  label = NaN) \<and>
             (code = 0 \<longrightarrow> label = Str ''Female'') \<and>
             (code = 1 \<longrightarrow> label = Str ''Male'') \<and>
             (code \<noteq> 0 \<and> code \<noteq> 1 \<longrightarrow>
                label = NaN \<and>
                r' \<notin> set (rows (subset_selected df' ''Male'')) \<and>
                r' \<notin> set (rows (subset_selected df' ''Female'')) \<and>
                r' \<in> set (rows (subset_selected df' ''All''))) \<and>
             (\<forall>g. compute_avg_age df' g = avg_of (subset_selected df' g)))"
proof -
  let ?c = "cell_at r ''sex''"
  let ?code = "sex_code ovf parse ?c"
  let ?r' = "load_row ovf parse r"
  let ?label = "cell_at ?r' ''sex_label''"
  have in_rows: "?r' \<in> set (rows df')"
    using assms by (simp add: preprocess_rows)
  have sex: "cell_at ?r' ''sex'' = Num (of_int ?code)"
    by (rule load_row_sex)
  have label: "?label = (if ?code = 0 then Str ''Female'' else if ?code = 1 then Str ''Male'' else NaN)"
    by (simp add: load_row_label series_map_sex_labels)
  have coerced: "to_numeric parse ?c = None \<longrightarrow> ?code = 0 \<and> ?label = Str ''Female''"
    by (simp add: label sex_code_coerced)
  have in_range: "\<forall>q. to_numeric parse ?c = Some q \<and> - (2 ^ 63) \<le> q \<and> q < 2 ^ 63 \<longrightarrow> ?code = trunc q"
    by (simp add: sex_code_numeric)
  have zero: "\<forall>q. to_numeric parse ?c = Some q \<and> - 1 < q \<and> q < 1 \<longrightarrow>
      ?code = 0 \<and> ?label = Str ''Female''"
  proof (intro allI impI)
    fix q assume q: "to_numeric parse ?c = Some q \<and> - 1 < q \<and> q < 1"
    then have "- (2 ^ 63) \<le> q" "q < 2 ^ 63" by simp_all
    with q have "?code = trunc q" by (simp add: sex_code_numeric)
    with q have "?code = 0" by (simp add: trunc_fraction)
    then show "?code = 0 \<and> ?label = Str ''Female''" by (simp add: label)
  qed
  have one: "\<forall>q. to_numeric parse ?c = Some q \<and> 1 \<le> q \<and> q < 2 \<longrightarrow>
      ?code = 1 \<and> ?label = Str ''Male''"
  proof (intro allI impI)
    fix q assume q: "to_numeric parse ?c = Some q \<and> 1 \<le> q \<and> q < 2"
    then have "- (2 ^ 63) \<le> q" "q < 2 ^ 63" by simp_all
    with q have "?code = trunc q" by (simp add: sex_code_numeric)
    with q have "?code = 1" by (simp add: trunc_one)
    then show "?code = 1 \<and> ?label = Str ''Male''" by (simp add: label)
  qed
  have other: "\<forall>q. to_numeric parse ?c = Some q \<and>
      (- (2 ^ 63) \<le> q \<and> q \<le> - 1 \<or> 2 \<le> q \<and> q < 2 ^ 63) \<longrightarrow> ?label = NaN"
  proof (intro allI impI)
    fix q assume q: "to_numeric parse ?c = Some q \<and>
      (- (2 ^ 63) \<le> q \<and> q \<le> - 1 \<or> 2 \<le> q \<and> q < 2 ^ 63)"
    then have "- (2 ^ 63) \<le> q" "q < 2 ^ 63" by auto
    with q have code: "?code = trunc q" by (simp add: sex_code_numeric)
    from q have "trunc q \<le> - 1 \<or> 2 \<le> trunc q"
      using trunc_lower [of q] trunc_upper [of q] by auto
    with code have "?code \<noteq> 0" "?code \<noteq> 1" by auto
    then show "?label = NaN" by (simp add: label)
  qed
  have unl: "?label = NaN \<longrightarrow>
      ?r' \<notin> set (rows (subset_selected df' ''Male'')) \<and>
      ?r' \<notin> set (rows (subset_selected df' ''Female''))"
    by (simp add: unlabelled_not_selected)
  have all: "?r' \<in> set (rows (subset_selected df' ''All''))"
    using in_rows by (simp add: subset_selected_def)
  have codes: "(?code = 0 \<longrightarrow> ?label = Str ''Female'') \<and> (?code = 1 \<longrightarrow> ?label = Str ''Male'') \<and>
      (?code \<noteq> 0 \<and> ?code \<noteq> 1 \<longrightarrow> ?label = NaN)"
    by (simp add: label)
  have selected: "\<forall>g. compute_avg_age df' g = avg_of (subset_selected df' g)"
    using preprocess_columns [OF assms(1)] by (simp add: compute_avg_age_selected)
  from in_rows sex coerced in_range zero one other unl all codes selected
  show ?thesis unfolding Let_def by blast
qed

theorem sex_normalization_witness:
  "preprocess wrap_int64 parse_one raw_sheet = Inr loaded_sheet \<and>
   raw_row (Num 2) 40 \<in> set (rows raw_sheet) \<and>
   raw_row (Str ''f'') 70 \<in> set (rows raw_sheet) \<and>
   cell_at (load_row wrap_int64 parse_one (raw_row (Str ''f'') 70)) ''sex'' = Num 0 \<and>
   cell_at (load_row wrap_int64 parse_one (raw_row (Str ''f'') 70)) ''sex_label'' = Str ''Female'' \<and>
   cell_at (load_row wrap_int64 parse_one (raw_row (Num 2) 40)) ''sex_label'' = NaN \<and>
   load_row wrap_int64 parse_one (raw_row (Num 2) 40) \<in> set (rows loaded_sheet) \<and>
   load_row wrap_int64 parse_one (raw_row (Num 2) 40)
     \<notin> set (rows (subset_selected loaded_sheet ''Male'')) \<and>
   load_row wrap_int64 parse_one (raw_row (Num 2) 40)
     \<notin> set (rows (subset_selected loaded_sheet ''Female'')) \<and>
   load_row wrap_int64 parse_one (raw_row (Num 2) 40)
     \<in> set (rows (subset_selected loaded_sheet ''All''))"
proof -
  have p: "preprocess wrap_int64 parse_one raw_sheet = Inr loaded_sheet"
    by (simp add: preprocess_def raw_sheet_def loaded_sheet_def)
  have r2: "raw_row (Num 2) 40 \<in> set (rows raw_sheet)"
    and rf: "raw_row (Str ''f'') 70 \<in> set (rows raw_sheet)"
    by (simp_all add: raw_sheet_def)
  have n2: "to_numeric parse_one (cell_at (raw_row (Num 2) 40) ''sex'') = Some 2"
    by (simp add: raw_row_def cell_at_def to_numeric_def)
  have nf: "to_numeric parse_one (cell_at (raw_row (Str ''f'') 70) ''sex'') = None"
    by (simp add: raw_row_def cell_at_def to_numeric_def parse_one_def)
  have c2: "sex_code wrap_int64 parse_one (cell_at (raw_row (Num 2) 40) ''sex'') = 2"
    using sex_code_numeric [OF n2, of wrap_int64] trunc_of_int [of 2] by simp
  from sex_normalization [OF p r2] sex_normalization [OF p rf] p r2 rf n2 nf c2
  show ?thesis by (simp add: Let_def)
qed

text \<open>
  Claim C10 as stated gives no label to a row with any numeric sex value other than 0 and
  1. The raw value 0.5 is numeric and is neither 0 nor 1; the conversion to integers cuts
  it to 0, the row is labelled Female, and the filter \<^verbatim>\<open>"Female"\<close> selects it.
\<close>

theorem fractional_sex_is_labelled:
  "raw_row (Num (1 / 2)) 58 \<in> set (rows raw_sheet) \<and>
   to_numeric parse_one (cell_at (raw_row (Num (1 / 2)) 58) ''sex'') = Some (1 / 2) \<and>
   (1 / 2 :: rat) \<noteq> 0 \<and> (1 / 2 :: rat) \<noteq> 1 \<and>
   cell_at (load_row wrap_int64 parse_one (raw_row (Num (1 / 2)) 58)) ''sex_label'' =
     Str ''Female'' \<and>
   load_row wrap_int64 parse_one (raw_row (Num (1 / 2)) 58)
     \<in> set (rows (subset_selected loaded_sheet ''Female''))"
proof -
  have n: "to_numeric parse_one (cell_at (raw_row (Num (1 / 2)) 58) ''sex'') = Some (1 / 2)"
    by (simp add: raw_row_def cell_at_def to_numeric_def)
  have "sex_code wrap_int64 parse_one (cell_at (raw_row (Num (1 / 2)) 58) ''sex'') = trunc (1 / 2)"
    using n by (rule sex_code_numeric) simp_all
  then have code: "sex_code wrap_int64 parse_one (cell_at (raw_row (Num (1 / 2)) 58) ''sex'') = 0"
    by (simp add: trunc_fraction)
  have label: "cell_at (load_row wrap_int64 parse_one (raw_row (Num (1 / 2)) 58)) ''sex_label'' =
      Str ''Female''"
    by (simp add: load_row_label series_map_sex_labels code)
  then have "load_row wrap_int64 parse_one (raw_row (Num (1 / 2)) 58)
      \<in> set (rows (subset_selected loaded_sheet ''Female''))"
    by (simp add: subset_selected_def restrict_to_def loaded_sheet_def raw_sheet_def cell_at_Str)
  with n label show ?thesis by (simp add: raw_sheet_def)
qed

section \<open>The dashboard update: claims\<close>

text \<open>
  The handler and the task function select the subset by the same expression and apply
  the same return expression to it; the lemmas follow the handler through its steps.
\<close>

lemma update_dash_selection_raises:
  assumes "(if gender_selected st = ''All'' then Inr df_raw
            else (case getitem df_raw ''sex_label'' of
                    Inl e \<Rightarrow> Inl e
                  | Inr s \<Rightarrow> Inr (getitem_mask df_raw (series_eq s (gender_selected st))))) = Inl e"
  shows "update_dash pie_chart box_chart df_raw st = (Some e, st)"
  unfolding update_dash_def by (simp only: assms sum.case)

lemma compute_avg_age_selection_raises:
  assumes "(if g = ''All'' then Inr df
            else (case getitem df ''sex_label'' of
                    Inl e \<Rightarrow> Inl e
                  | Inr s \<Rightarrow> Inr (getitem_mask df (series_eq s g)))) = Inl e"
  shows "compute_avg_age df g = Inl e"
  unfolding compute_avg_age_def by (simp only: assms sum.case)

lemma compute_avg_age_selection:
  assumes "(if g = ''All'' then Inr df
            else (case getitem df ''sex_label'' of
                    Inl e \<Rightarrow> Inl e
                  | Inr s \<Rightarrow> Inr (getitem_mask df (series_eq s g)))) = Inr d"
  shows "compute_avg_age df g = avg_of d"
  unfolding compute_avg_age_def avg_of_def by (simp only: assms sum.case)

lemma update_dash_avg_raises:
  assumes "(if gender_selected st = ''All'' then Inr df_raw
            else (case getitem df_raw ''sex_label'' of
                    Inl e \<Rightarrow> Inl e
                  | Inr s \<Rightarrow> Inr (getitem_mask df_raw (series_eq s (gender_selected st))))) = Inr d"
    and "avg_of d = Inl e"
  shows "update_dash pie_chart box_chart df_raw st = (Some e, st\<lparr>filtered_df := d\<rparr>)"
  using assms(2) unfolding update_dash_def avg_of_def by (simp only: assms(1) sum.case Let_def)

lemma update_dash_avg:
  assumes "(if gender_selected st = ''All'' then Inr df_raw
            else (case getitem df_raw ''sex_label'' of
                    Inl e \<Rightarrow> Inl e
                  | Inr s \<Rightarrow> Inr (getitem_mask df_raw (series_eq s (gender_selected st))))) = Inr d"
    and "avg_of d = Inr a"
  shows "avg_age (snd (update_dash pie_chart box_chart df_raw st)) = a"
  using assms(2) unfolding update_dash_def avg_of_def
  by (simp only: assms(1) sum.case Let_def) (simp split: sum.splits)

text \<open>
  Claim C5. The preview path and the task path compute the same statistic: for every
  selection, the value \<^verbatim>\<open>update_dash\<close> assigns to \<^verbatim>\<open>state.avg_age\<close> is the value of
  \<^verbatim>\<open>compute_avg_age(df_raw, state.gender_selected)\<close>, which the task would write to
  the \<^verbatim>\<open>avg_age\<close> node for the same inputs. Where that computation raises, the handler
  raises the same exception and assigns no average.
\<close>

theorem update_dash_preview_is_task_value:
  "(case compute_avg_age df_raw (gender_selected st) of
      Inr v \<Rightarrow> avg_age (snd (update_dash pie_chart box_chart df_raw st)) = v
    | Inl e \<Rightarrow> fst (update_dash pie_chart box_chart df_raw st) = Some e \<and>
               avg_age (snd (update_dash pie_chart box_chart df_raw st)) = avg_age st)"
proof -
  let ?sel = "if gender_selected st = ''All'' then Inr df_raw
            else (case getitem df_raw ''sex_label'' of
                    Inl e \<Rightarrow> Inl e
                  | Inr s \<Rightarrow> Inr (getitem_mask df_raw (series_eq s (gender_selected st))))"
  show ?thesis
  proof (cases ?sel)
    case (Inl e)
    then show ?thesis
      by (simp add: compute_avg_age_selection_raises update_dash_selection_raises)
  next
    case sel: (Inr d)
    show ?thesis
    proof (cases "avg_of d")
      case (Inl e)
      with sel show ?thesis
        by (simp add: compute_avg_age_selection update_dash_avg_raises)
    next
      case (Inr a)
      with sel show ?thesis
        by (simp add: compute_avg_age_selection update_dash_avg)
    qed
  qed
qed

theorem update_dash_preview_is_task_value_witness:
  "avg_age (snd (update_dash no_chart no_box dataset10
      ((initial_state dataset10 () () 0)\<lparr>gender_selected := ''Male''\<rparr>))) = Num 55"
  using update_dash_preview_is_task_value
    [where df_raw = dataset10 and pie_chart = no_chart and box_chart = no_box
       and st = "(initial_state dataset10 () () 0)\<lparr>gender_selected := ''Male''\<rparr>"]
  by (simp add: initial_state_def avg_age_male)

section \<open>The function as the interpreter runs it: claims\<close>

subsection \<open>Running the body\<close>

lemma lookup_local:
  assumes "n \<in> set lns" and "L n = Some v"
  shows "lookup lns G L n = Inr v"
  using assms by (simp add: lookup_def)

lemma lookup_round:
  assumes "G ''round'' = None"
  shows "lookup [''filtered_df'', ''gender_filter'', ''data''] G L ''round'' =
         Inr (OBuiltin ''round'')"
  using assms by (simp add: lookup_def builtins_def)

text \<open>The right-hand side of the assignment to \<^verbatim>\<open>data\<close>.\<close>

lemma eval_data_All:
  assumes "L ''filtered_df'' = Some (ODf df)"
    and "L ''gender_filter'' = Some (OCell (Str ''All''))"
  shows "eval_expr [''filtered_df'', ''gender_filter'', ''data''] G L data_expr = Inr (ODf df)"
  using assms by (simp add: data_expr_def lookup_def py_eq_def truth_def)

lemma eval_data_filter:
  assumes "L ''filtered_df'' = Some (ODf df)"
    and "L ''gender_filter'' = Some (OCell (Str g))" and "g \<noteq> ''All''"
  shows "eval_expr [''filtered_df'', ''gender_filter'', ''data''] G L data_expr =
         (case getitem df ''sex_label'' of
            Inl e \<Rightarrow> Inl e
          | Inr s \<Rightarrow> Inr (ODf (getitem_mask df (series_eq s g))))"
proof (cases "getitem df ''sex_label''")
  case (Inl e)
  with assms show ?thesis
    by (simp add: data_expr_def lookup_def py_eq_def truth_def py_getitem_def)
next
  case (Inr s)
  with assms show ?thesis
    by (simp add: data_expr_def lookup_def py_eq_def truth_def py_getitem_def)
qed

text \<open>The expression of the return statement, once \<^verbatim>\<open>data\<close> is bound.\<close>

lemma eval_return_empty:
  assumes "L ''data'' = Some (ODf d)" and "df_empty d"
  shows "eval_expr [''filtered_df'', ''gender_filter'', ''data''] G L return_expr = Inr (OInt 0)"
  using assms by (simp add: return_expr_def lookup_def py_getattr_def truth_def)

lemma eval_return_mean:
  assumes "L ''data'' = Some (ODf d)" and "\<not> df_empty d" and "G ''round'' = None"
  shows "eval_expr [''filtered_df'', ''gender_filter'', ''data''] G L return_expr =
         (case getitem d ''age'' of
            Inl e \<Rightarrow> Inl e
          | Inr ages \<Rightarrow>
              (case mean ages of
                 Inl e \<Rightarrow> Inl e
               | Inr m \<Rightarrow> (case py_round m 1 of Inl e \<Rightarrow> Inl e | Inr v \<Rightarrow> Inr (OCell v))))"
proof (cases "getitem d ''age''")
  case (Inl e)
  with assms show ?thesis
    by (simp add: return_expr_def lookup_def builtins_def py_getattr_def truth_def
        py_getitem_def)
next
  case ages: (Inr ages)
  show ?thesis
  proof (cases "mean ages")
    case (Inl e)
    with ages assms show ?thesis
      by (simp add: return_expr_def lookup_def builtins_def py_getattr_def truth_def
          py_getitem_def py_method_def)
  next
    case (Inr m)
    with ages assms show ?thesis
      by (simp add: return_expr_def lookup_def builtins_def py_getattr_def truth_def
          py_getitem_def py_method_def py_call_def)
  qed
qed

lemma eval_return:
  assumes "L ''data'' = Some (ODf d)" and "G ''round'' = None"
  shows "returned (eval_expr [''filtered_df'', ''gender_filter'', ''data''] G L return_expr) =
         avg_of d"
proof (cases "df_empty d")
  case True
  with assms(1) show ?thesis
    by (simp add: eval_return_empty returned_def avg_of_def)
next
  case False
  show ?thesis
  proof (cases "getitem d ''age''")
    case (Inl e)
    with False assms show ?thesis
      by (simp add: eval_return_mean returned_def avg_of_def)
  next
    case ages: (Inr ages)
    show ?thesis
    proof (cases "mean ages")
      case (Inl e)
      with ages False assms show ?thesis
        by (simp add: eval_return_mean returned_def avg_of_def)
    next
      case m: (Inr m)
      show ?thesis
      proof (cases "py_round m 1")
        case (Inl e)
        with m ages False assms show ?thesis
          by (simp add: eval_return_mean returned_def avg_of_def)
      next
        case (Inr v)
        with m ages False assms show ?thesis
          by (simp add: eval_return_mean returned_def avg_of_def)
      qed
    qed
  qed
qed

text \<open>The call: the parameters are bound, \<^verbatim>\<open>data\<close> is assigned, the value is returned.\<close>

lemma call_function_steps:
  "call_function G compute_avg_age_src [ODf df, OCell (Str g)] =
     (case eval_expr [''filtered_df'', ''gender_filter'', ''data''] G
             [''gender_filter'' \<mapsto> OCell (Str g), ''filtered_df'' \<mapsto> ODf df] data_expr of
        Inl x \<Rightarrow> Inl x
      | Inr v \<Rightarrow>
          eval_expr [''filtered_df'', ''gender_filter'', ''data''] G
            [''gender_filter'' \<mapsto> OCell (Str g), ''filtered_df'' \<mapsto> ODf df, ''data'' \<mapsto> v]
            return_expr)"
  by (simp add: call_function_def compute_avg_age_src_def split: sum.splits)

lemma call_compute_avg_age_src:
  assumes "G ''round'' = None"
  shows "returned (call_function G compute_avg_age_src [ODf df, OCell (Str g)]) =
         compute_avg_age df g"
proof (cases "g = ''All''")
  case True
  have "eval_expr [''filtered_df'', ''gender_filter'', ''data''] G
      [''gender_filter'' \<mapsto> OCell (Str g), ''filtered_df'' \<mapsto> ODf df] data_expr = Inr (ODf df)"
    using True by (intro eval_data_All) simp_all
  then have "returned (call_function G compute_avg_age_src [ODf df, OCell (Str g)]) = avg_of df"
    using assms by (simp add: call_function_steps eval_return)
  with True show ?thesis by (simp add: compute_avg_age_All)
next
  case False
  have data: "eval_expr [''filtered_df'', ''gender_filter'', ''data''] G
      [''gender_filter'' \<mapsto> OCell (Str g), ''filtered_df'' \<mapsto> ODf df] data_expr =
      (case getitem df ''sex_label'' of
         Inl e \<Rightarrow> Inl e
       | Inr s \<Rightarrow> Inr (ODf (getitem_mask df (series_eq s g))))"
    using False by (intro eval_data_filter) simp_all
  show ?thesis
  proof (cases "''sex_label'' \<in> set (columns df)")
    case True
    then have "eval_expr [''filtered_df'', ''gender_filter'', ''data''] G
        [''gender_filter'' \<mapsto> OCell (Str g), ''filtered_df'' \<mapsto> ODf df] data_expr =
        Inr (ODf (restrict_to df g))"
      by (simp add: data getitem_def getitem_mask_series_eq)
    then have "returned (call_function G compute_avg_age_src [ODf df, OCell (Str g)]) =
        avg_of (restrict_to df g)"
      using assms by (simp add: call_function_steps eval_return)
    with False True show ?thesis by (simp add: compute_avg_age_filter)
  next
    case no_column: False
    then have "eval_expr [''filtered_df'', ''gender_filter'', ''data''] G
        [''gender_filter'' \<mapsto> OCell (Str g), ''filtered_df'' \<mapsto> ODf df] data_expr =
        Inl (KeyError ''sex_label'')"
      by (simp add: data getitem_def)
    then have "returned (call_function G compute_avg_age_src [ODf df, OCell (Str g)]) =
        Inl (KeyError ''sex_label'')"
      by (simp add: call_function_steps returned_def)
    with False no_column show ?thesis by (simp add: compute_avg_age_no_column)
  qed
qed

text \<open>
  Not every function has the property: an expression that names a module variable, as
  \<^verbatim>\<open>update_dash\<close> names \<^verbatim>\<open>df_raw\<close>, evaluates to what the module holds at the time.
\<close>

lemma module_variable_is_read:
  "eval_expr [''state''] [''df_raw'' \<mapsto> ODf dataset10] L (Name ''df_raw'') \<noteq>
   eval_expr [''state''] [''df_raw'' \<mapsto> ODf empty_sheet] L (Name ''df_raw'')"
  by (simp add: lookup_def dataset10_def empty_sheet_def)

text \<open>
  Claim C7. The task computation is deterministic and reads nothing beyond its two
  arguments: the names in its body are its parameters, its local \<^verbatim>\<open>data\<close> and the
  builtin \<^verbatim>\<open>round\<close>, so that two calls with equal data frames and equal filter strings
  return equal results whatever the module's variables hold at the time of either call
  (the module defines no variable \<^verbatim>\<open>round\<close>); the result is that of the function
  \<open>compute_avg_age\<close> of the two arguments.
\<close>

theorem compute_avg_age_deterministic:
  assumes "G1 ''round'' = None" and "G2 ''round'' = None" and "df1 = df2" and "g1 = g2"
  shows "returned (call_function G1 compute_avg_age_src [ODf df1, OCell (Str g1)]) =
         returned (call_function G2 compute_avg_age_src [ODf df2, OCell (Str g2)]) \<and>
         returned (call_function G1 compute_avg_age_src [ODf df1, OCell (Str g1)]) =
         compute_avg_age df1 g1"
proof -
  have first: "returned (call_function G1 compute_avg_age_src [ODf df1, OCell (Str g1)]) =
      compute_avg_age df1 g1"
    using assms(1) by (rule call_compute_avg_age_src)
  have second: "returned (call_function G2 compute_avg_age_src [ODf df2, OCell (Str g2)]) =
      compute_avg_age df2 g2"
    using assms(2) by (rule call_compute_avg_age_src)
  from first second assms(3,4) show ?thesis by simp
qed

theorem compute_avg_age_deterministic_witness:
  "module_before ''round'' = None \<and> module_after ''round'' = None \<and>
   module_before ''filtered_df'' \<noteq> module_after ''filtered_df'' \<and>
   returned (call_function module_before compute_avg_age_src [ODf dataset10, OCell (Str ''Female'')]) =
     Inr (Num (266 / 5)) \<and>
   returned (call_function module_after compute_avg_age_src [ODf dataset10, OCell (Str ''Female'')]) =
     Inr (Num (266 / 5))"
proof -
  have b: "module_before ''round'' = None" and a: "module_after ''round'' = None"
    by (simp_all add: module_before_def module_after_def)
  have d: "module_before ''filtered_df'' \<noteq> module_after ''filtered_df''"
    by (simp add: module_before_def module_after_def dataset10_def labelled_All_def)
  have "returned (call_function module_before compute_avg_age_src
            [ODf dataset10, OCell (Str ''Female'')]) =
        returned (call_function module_after compute_avg_age_src
            [ODf dataset10, OCell (Str ''Female'')]) \<and>
        returned (call_function module_before compute_avg_age_src
            [ODf dataset10, OCell (Str ''Female'')]) =
        compute_avg_age dataset10 ''Female''"
    using b a refl refl by (rule compute_avg_age_deterministic)
  then have e1: "returned (call_function module_before compute_avg_age_src
            [ODf dataset10, OCell (Str ''Female'')]) =
        returned (call_function module_after compute_avg_age_src
            [ODf dataset10, OCell (Str ''Female'')])"
    and e2: "returned (call_function module_before compute_avg_age_src
            [ODf dataset10, OCell (Str ''Female'')]) =
        compute_avg_age dataset10 ''Female''"
    by blast+
  from e2 have val: "returned (call_function module_before compute_avg_age_src
            [ODf dataset10, OCell (Str ''Female'')]) = Inr (Num (266 / 5))"
    by (simp only: avg_age_female)
  from e1 [symmetric] val
  have "returned (call_function module_after compute_avg_age_src
            [ODf dataset10, OCell (Str ''Female'')]) = Inr (Num (266 / 5))"
    by (rule trans)
  with b a d val show ?thesis by blast
qed

section \<open>The task, the scenario and the commit: claims\<close>

text \<open>
  Claim C1. Executing the configured task \<^verbatim>\<open>compute_avg_age\<close> reads its input nodes in
  declared order, \<^verbatim>\<open>filtered_df\<close> first and \<^verbatim>\<open>gender_filter\<close> second, invokes
  \<^verbatim>\<open>compute_avg_age\<close> on the two values, and writes the one returned value to the node
  \<^verbatim>\<open>avg_age\<close>, leaving every other node as it was; when the computation raises, the
  execution fails with that exception and nothing is written.
\<close>

theorem execute_task_cfg:
  assumes "store ''filtered_df'' = Some (PyDf df)"
    and "store ''gender_filter'' = Some (PyScalar (Str g))"
  shows "read_all store (task_inputs task_cfg) = Inr [PyDf df, PyScalar (Str g)] \<and>
     execute task_cfg store =
       (case compute_avg_age df g of
          Inl e \<Rightarrow> Inl e
        | Inr a \<Rightarrow> Inr (store(''avg_age'' \<mapsto> PyScalar a)))"
  using assms
  by (simp add: execute_def task_cfg_def filtered_df_cfg_def gender_filter_cfg_def
      avg_age_cfg_def call_compute_avg_age_def split: sum.splits)

theorem execute_task_cfg_witness:
  "example_store ''filtered_df'' = Some (PyDf dataset10) \<and>
   example_store ''gender_filter'' = Some (PyScalar (Str ''Male'')) \<and>
   execute task_cfg example_store = Inr (example_store(''avg_age'' \<mapsto> PyScalar (Num 55)))"
proof -
  have 1: "example_store ''filtered_df'' = Some (PyDf dataset10)"
    and 2: "example_store ''gender_filter'' = Some (PyScalar (Str ''Male''))"
    by (simp_all add: example_store_def)
  from execute_task_cfg [OF 1 2] 1 2 show ?thesis
    by (simp add: avg_age_male)
qed

text \<open>
  Claim C8. Scenarios have data nodes of their own: for two different scenarios, among
  them any two created from the configuration \<^verbatim>\<open>cardiac_scenario\<close>, writing a value to
  a node of the first leaves the value read from every node of the second unchanged.
\<close>

theorem scenario_isolation:
  assumes "s1 \<noteq> s2" and "dn_write s1 n v tp = Inr tp'"
  shows "get_node s2 m tp' = get_node s2 m tp"
  using assms by (auto simp: dn_write_def get_node_def split: option.splits)

text \<open>Two scenarios created one after the other differ, and all their nodes are empty.\<close>

lemma create_scenario_twice:
  assumes "create_scenario cfg tp = (s1, tp1)" and "create_scenario cfg tp1 = (s2, tp2)"
  shows "s1 \<noteq> s2 \<and> get_node s1 n tp2 = get_node s2 n tp2 \<and>
         get_node s1 n tp2 =
           (if n \<in> set (node_names cfg) then Inr PyNone else Inl (AttributeError n))"
  using assms by (auto simp: create_scenario_def get_node_def)

theorem scenario_isolation_witness:
  "fst (create_scenario scenario_cfg taipy_init) = 0 \<and>
   fst (create_scenario scenario_cfg (snd (create_scenario scenario_cfg taipy_init))) = 1 \<and>
   (\<exists>tp'. dn_write 0 ''gender_filter'' (PyScalar (Str ''Male'')) two_scenarios = Inr tp' \<and>
      get_node 0 ''gender_filter'' tp' = Inr (PyScalar (Str ''Male'')) \<and>
      get_node 1 ''gender_filter'' tp' = Inr PyNone)"
proof -
  define tp' where "tp' = two_scenarios\<lparr>scenarios := (scenarios two_scenarios)(0 \<mapsto>
      (the (scenarios two_scenarios 0))\<lparr>nodes := (nodes (the (scenarios two_scenarios 0)))
         (''gender_filter'' \<mapsto> PyScalar (Str ''Male''))\<rparr>),
      events := events two_scenarios @ [Written 0 ''gender_filter'']\<rparr>"
  have w: "dn_write 0 ''gender_filter'' (PyScalar (Str ''Male'')) two_scenarios = Inr tp'"
    by (simp add: tp'_def two_scenarios_def dn_write_def create_scenario_def taipy_init_def cfg_defs)
  have "(0::nat) \<noteq> 1" by simp
  then have "get_node 1 ''gender_filter'' tp' = get_node 1 ''gender_filter'' two_scenarios"
    using w by (rule scenario_isolation)
  moreover have "get_node 1 ''gender_filter'' two_scenarios = Inr PyNone"
    by (simp add: two_scenarios_def get_node_def create_scenario_def taipy_init_def cfg_defs)
  moreover have "get_node 0 ''gender_filter'' tp' = Inr (PyScalar (Str ''Male''))"
    by (simp add: tp'_def get_node_def)
  moreover have "fst (create_scenario scenario_cfg taipy_init) = 0"
    "fst (create_scenario scenario_cfg (snd (create_scenario scenario_cfg taipy_init))) = 1"
    by (simp_all add: create_scenario_def taipy_init_def)
  ultimately show ?thesis using w by simp
qed

text \<open>
  Claim C6. On a scenario that owns the two input nodes, \<^verbatim>\<open>save_scenario\<close> succeeds; it
  writes \<^verbatim>\<open>state.filtered_df\<close> and \<^verbatim>\<open>state.gender_selected\<close> over whatever the nodes
  \<^verbatim>\<open>filtered_df\<close> and \<^verbatim>\<open>gender_filter\<close> of that scenario held, then refreshes and
  emits the notification, last of all; it does not submit the scenario (the trace gains
  the two writes, the refresh and the notification only), and the \<^verbatim>\<open>avg_age\<close> node, as
  every node but the two inputs and every other scenario, reads as before.
\<close>

theorem save_scenario_commits_inputs:
  assumes "scenarios tp (scenario st) = Some sc"
    and "nodes sc ''filtered_df'' = Some v1" and "nodes sc ''gender_filter'' = Some v2"
  shows "\<exists>tp'. save_scenario st tp = (None, tp') \<and>
     get_node (scenario st) ''filtered_df'' tp' = Inr (PyDf (filtered_df st)) \<and>
     get_node (scenario st) ''gender_filter'' tp' = Inr (PyScalar (Str (gender_selected st))) \<and>
     get_node (scenario st) ''avg_age'' tp' = get_node (scenario st) ''avg_age'' tp \<and>
     (\<forall>n. n \<noteq> ''filtered_df'' \<and> n \<noteq> ''gender_filter'' \<longrightarrow>
        get_node (scenario st) n tp' = get_node (scenario st) n tp) \<and>
     (\<forall>s n. s \<noteq> scenario st \<longrightarrow> get_node s n tp' = get_node s n tp) \<and>
     events tp' = events tp @
       [Written (scenario st) ''filtered_df'', Written (scenario st) ''gender_filter'',
        Refreshed ''scenario'', Notified ''s'' ''Scenario saved -- submit to compute!'']"
  using assms
  by (simp add: save_scenario_def dn_write_def get_node_def notify_def refresh_def)

theorem save_scenario_commits_inputs_witness:
  "startup dataset10 taipy_init = Inr (0, started) \<and>
   get_node 0 ''gender_filter'' started = Inr (PyScalar (Str ''All'')) \<and>
   (\<exists>tp'. save_scenario ((initial_state dataset10 () () 0)\<lparr>gender_selected := ''Female''\<rparr>) started
             = (None, tp') \<and>
      get_node 0 ''gender_filter'' tp' = Inr (PyScalar (Str ''Female'')) \<and>
      get_node 0 ''filtered_df'' tp' = Inr (PyDf dataset10) \<and>
      get_node 0 ''avg_age'' tp' = Inr PyNone \<and>
      events tp' = [Written 0 ''filtered_df'', Written 0 ''gender_filter'',
        Written 0 ''filtered_df'', Written 0 ''gender_filter'',
        Refreshed ''scenario'', Notified ''s'' ''Scenario saved -- submit to compute!''])"
proof -
  let ?st = "(initial_state dataset10 () () 0)\<lparr>gender_selected := ''Female''\<rparr>"
  let ?sc = "\<lparr>config_id = ''cardiac_scenario'',
      nodes = (\<lambda>n. if n \<in> set (node_names scenario_cfg) then Some PyNone else None)
        (''filtered_df'' \<mapsto> PyDf dataset10, ''gender_filter'' \<mapsto> PyScalar (Str ''All'')),
      tasks = [task_cfg]\<rparr>"
  have s: "startup dataset10 taipy_init = Inr (0, started)"
    by (simp add: started_def startup_def create_scenario_def taipy_init_def dn_write_def cfg_defs)
  have sc: "scenarios started (scenario ?st) = Some ?sc"
    by (simp add: started_def startup_def create_scenario_def taipy_init_def dn_write_def cfg_defs
        initial_state_def)
  have n1: "nodes ?sc ''filtered_df'' = Some (PyDf dataset10)"
    and n2: "nodes ?sc ''gender_filter'' = Some (PyScalar (Str ''All''))"
    by simp_all
  have ev: "events started = [Written 0 ''filtered_df'', Written 0 ''gender_filter'']"
    by (simp add: started_def startup_def create_scenario_def taipy_init_def dn_write_def cfg_defs)
  have g0: "get_node 0 ''gender_filter'' started = Inr (PyScalar (Str ''All''))"
    and a0: "get_node 0 ''avg_age'' started = Inr PyNone"
    by (simp_all add: started_def startup_def create_scenario_def taipy_init_def dn_write_def
        cfg_defs get_node_def)
  from save_scenario_commits_inputs [OF sc n1 n2] obtain tp' where
    "save_scenario ?st started = (None, tp')"
    "get_node 0 ''filtered_df'' tp' = Inr (PyDf dataset10)"
    "get_node 0 ''gender_filter'' tp' = Inr (PyScalar (Str ''Female''))"
    "get_node 0 ''avg_age'' tp' = Inr PyNone"
    "events tp' = [Written 0 ''filtered_df'', Written 0 ''gender_filter'',
        Written 0 ''filtered_df'', Written 0 ''gender_filter'',
        Refreshed ''scenario'', Notified ''s'' ''Scenario saved -- submit to compute!'']"
    by (auto simp: initial_state_def ev a0)
  with s g0 show ?thesis by blast
qed

end
